theory Spec2Isabelle
  imports Complex_Main
begin

section \<open>Strings\<close>

text \<open>
  Go strings are modelled as lists of code points; the model covers the code points below
  256, one \<^typ>\<open>char\<close> each. The delimiters the program looks for (comma, brackets, equals
  sign, dot) are ASCII, so ranging over runes and ranging over these characters agree.
\<close>

text \<open>\<^verbatim>\<open>unicode.IsSpace\<close> on the code points below 256: tab, line feed, vertical tab, form
  feed, carriage return, space, U+0085 and U+00A0.\<close>

definition isSpace :: "char \<Rightarrow> bool" where
  "isSpace c = (of_char c \<in> {9, 10, 11, 12, 13, 32, 133, 160 :: nat})"

text \<open>\<^verbatim>\<open>strings.TrimSpace\<close>: leading and trailing white space removed.\<close>

definition TrimSpace :: "string \<Rightarrow> string" where
  "TrimSpace s = rev (dropWhile isSpace (rev (dropWhile isSpace s)))"

text \<open>\<^verbatim>\<open>strings.Fields\<close>: the maximal runs of non-space characters, in order.\<close>

fun FieldsLoop :: "string \<Rightarrow> string \<Rightarrow> string list" where
  "FieldsLoop [] cur = (if cur = [] then [] else [cur])"
| "FieldsLoop (c # cs) cur =
     (if isSpace c then (if cur = [] then FieldsLoop cs [] else cur # FieldsLoop cs [])
      else FieldsLoop cs (cur @ [c]))"

definition Fields :: "string \<Rightarrow> string list" where
  "Fields s = FieldsLoop s []"

text \<open>\<^verbatim>\<open>strings.Index(s, "=")\<close> and friends: the position of the first occurrence of one
  character; \<open>None\<close> stands for the result \<open>-1\<close>.\<close>

fun IndexChar :: "string \<Rightarrow> char \<Rightarrow> nat option" where
  "IndexChar [] c = None"
| "IndexChar (x # xs) c =
     (if x = c then Some 0 else (case IndexChar xs c of None \<Rightarrow> None | Some i \<Rightarrow> Some (Suc i)))"

text \<open>\<^verbatim>\<open>strings.Split(s, ",")\<close>: every separator splits, empty pieces are kept.\<close>

fun SplitChar :: "string \<Rightarrow> char \<Rightarrow> string list" where
  "SplitChar [] sep = [[]]"
| "SplitChar (c # cs) sep =
     (if c = sep then [] # SplitChar cs sep
      else (case SplitChar cs sep of [] \<Rightarrow> [[c]] | p # ps \<Rightarrow> (c # p) # ps))"

definition HasPrefix :: "string \<Rightarrow> string \<Rightarrow> bool" where
  "HasPrefix s p = (take (length p) s = p)"

definition TrimPrefix :: "string \<Rightarrow> string \<Rightarrow> string" where
  "TrimPrefix s p = (if HasPrefix s p then drop (length p) s else s)"

text \<open>\<^verbatim>\<open>unicode.ToLower\<close> on the code points below 256: \<open>A\<close>--\<open>Z\<close> and the accented capitals
  U+00C0--U+00DE (the multiplication sign U+00D7 apart) move up by 32.\<close>

definition toLowerChar :: "char \<Rightarrow> char" where
  "toLowerChar c =
     (let n = (of_char c :: nat)
      in if (65 \<le> n \<and> n \<le> 90) \<or> (192 \<le> n \<and> n \<le> 222 \<and> n \<noteq> 215) then char_of (n + 32) else c)"

definition ToLower :: "string \<Rightarrow> string" where
  "ToLower s = map toLowerChar s"

text \<open>\<^verbatim>\<open>regexp.QuoteMeta\<close>: a backslash before each regular-expression metacharacter.\<close>

definition isMeta :: "char \<Rightarrow> bool" where
  "isMeta c = (c \<in> set (CHR 0x5C # ''.+*?()|[]{}^$''))"

fun QuoteMeta :: "string \<Rightarrow> string" where
  "QuoteMeta [] = []"
| "QuoteMeta (c # cs) = (if isMeta c then CHR 0x5C # c # QuoteMeta cs else c # QuoteMeta cs)"

section \<open>Validation rule strings\<close>

record ValidationRule =
  Name :: string
  Param :: string

text \<open>
  \<^verbatim>\<open>splitValidateTag\<close>: one pass over the tag with the parts found so far, the part being
  built and the bracket depth. The depth is a signed counter: an unmatched closing bracket
  makes it negative.
\<close>

fun splitLoop :: "string \<Rightarrow> string list \<Rightarrow> string \<Rightarrow> int \<Rightarrow> string list \<times> string" where
  "splitLoop [] parts current depth = (parts, current)"
| "splitLoop (ch # rest) parts current depth =
     (if ch = CHR ''['' then splitLoop rest parts (current @ [ch]) (depth + 1)
      else if ch = CHR '']'' then splitLoop rest parts (current @ [ch]) (depth - 1)
      else if ch = CHR '','' then
        (if depth = 0 then splitLoop rest (parts @ [current]) [] depth
         else splitLoop rest parts (current @ [ch]) depth)
      else splitLoop rest parts (current @ [ch]) depth)"

definition splitValidateTag :: "string \<Rightarrow> string list" where
  "splitValidateTag tag =
     (case splitLoop tag [] [] 0 of
        (parts, current) \<Rightarrow> if length current > 0 then parts @ [current] else parts)"

text \<open>\<^verbatim>\<open>parseValidateTag\<close>: each part is trimmed, empty parts are skipped, and a part with an
  equals sign is cut at the first one.\<close>

fun parseLoop :: "string list \<Rightarrow> ValidationRule list \<Rightarrow> ValidationRule list" where
  "parseLoop [] rules = rules"
| "parseLoop (part # parts) rules =
     (let part = TrimSpace part
      in if part = [] then parseLoop parts rules
         else (case IndexChar part (CHR ''='') of
                 Some idx \<Rightarrow>
                   parseLoop parts (rules @ [\<lparr>Name = take idx part, Param = drop (idx + 1) part\<rparr>])
               | None \<Rightarrow> parseLoop parts (rules @ [\<lparr>Name = part, Param = []\<rparr>])))"

definition parseValidateTag :: "string \<Rightarrow> ValidationRule list" where
  "parseValidateTag tag = parseLoop (splitValidateTag tag) []"

subsection \<open>The tokenization as a function of the rule string\<close>



subsection \<open>The tokenization as the grammar words it\<close>







section \<open>The type model\<close>

text \<open>
  The descriptors of \<^verbatim>\<open>internal/parser/types.go\<close>. Go resolves a field name by the type
  of its struct; here the field names of different structs share one name space, so the
  \<^verbatim>\<open>Name\<close>, \<^verbatim>\<open>Doc\<close>, \<^verbatim>\<open>Type\<close>, \<^verbatim>\<open>Fields\<close> and \<^verbatim>\<open>PackagePath\<close> fields carry the name of their
  struct in front. A pointer that may be nil is an \<open>option\<close>. The boolean \<^verbatim>\<open>Inline\<close> of
  \<^verbatim>\<open>StructInfo\<close> is the field that the parser sets from the \<^verbatim>\<open>+schema:inline\<close> marker and
  that the builder and the generator read.
\<close>

datatype TypeKind =
    TypeKindPrimitive | TypeKindStruct | TypeKindSlice | TypeKindArray | TypeKindMap
  | TypeKindPointer | TypeKindInterface | TypeKindTime | TypeKindDuration | TypeKindAlias
  | TypeKindUnknown

datatype TypeInfo = TypeInfo
  (Kind: TypeKind)
  (TypeName: string)
  (TypePackagePath: string)
  (PackageName: string)
  (IsPointer: bool)
  (ElemType: "TypeInfo option")
  (KeyType: "TypeInfo option")
  (IsExported: bool)
  (UnderlyingKind: TypeKind)
  (UnderlyingName: string)

record FieldInfo =
  FieldName :: string
  PropertyName :: string
  FieldType :: TypeInfo
  Tags :: "string \<rightharpoonup> string"
  FieldDoc :: string
  IsEmbedded :: bool
  OmitEmpty :: bool

record StructInfo =
  StructName :: string
  Package :: string
  StructPackagePath :: string
  StructFields :: "FieldInfo list"
  StructDoc :: string
  FilePath :: string
  Inline :: bool

text \<open>\<^verbatim>\<open>TypeInfo.Underlying\<close>: pointers are looked through, as long as they point somewhere.\<close>

fun Underlying :: "TypeInfo \<Rightarrow> TypeInfo" where
  "Underlying (TypeInfo k n pp pn ip (Some e) kt ex uk un) =
     (if k = TypeKindPointer then Underlying e else TypeInfo k n pp pn ip (Some e) kt ex uk un)"
| "Underlying (TypeInfo k n pp pn ip None kt ex uk un) = TypeInfo k n pp pn ip None kt ex uk un"

section \<open>Schema documents\<close>

text \<open>
  The fields of \<^verbatim>\<open>jsonschema.Schema\<close> that the program reads or writes. An empty string,
  an empty list and \<open>None\<close> are the zero values that the serializer leaves out. The
  numeric bounds are \<^verbatim>\<open>json.Number\<close>, a string holding the digits as written; the length
  bounds are pointers to unsigned 64-bit integers. \<^verbatim>\<open>Properties\<close> is a pointer to a map
  that keeps its keys in insertion order.
\<close>

datatype Schema = Schema
  (Version: string)
  (ID: string)
  (Title: string)
  (Description: string)
  (Type: string)
  (Format: string)
  (Pattern: string)
  (Enum: "string list")
  (Minimum: string)
  (Maximum: string)
  (ExclusiveMinimum: string)
  (ExclusiveMaximum: string)
  (MinLength: "nat option")
  (MaxLength: "nat option")
  (Items: "Schema option")
  (AdditionalProperties: "Schema option")
  (Ref: string)
  (ContentEncoding: string)
  (Properties: "(string \<times> Schema) list option")
  (Required: "string list")

definition set_Version :: "string \<Rightarrow> Schema \<Rightarrow> Schema" where
  "set_Version v s = (case s of Schema x1 x2 x3 x4 x5 x6 x7 x8 x9 x10 x11 x12 x13 x14 x15 x16 x17 x18 x19 x20 \<Rightarrow>
     Schema v x2 x3 x4 x5 x6 x7 x8 x9 x10 x11 x12 x13 x14 x15 x16 x17 x18 x19 x20)"

definition set_ID :: "string \<Rightarrow> Schema \<Rightarrow> Schema" where
  "set_ID v s = (case s of Schema x1 x2 x3 x4 x5 x6 x7 x8 x9 x10 x11 x12 x13 x14 x15 x16 x17 x18 x19 x20 \<Rightarrow>
     Schema x1 v x3 x4 x5 x6 x7 x8 x9 x10 x11 x12 x13 x14 x15 x16 x17 x18 x19 x20)"

definition set_Title :: "string \<Rightarrow> Schema \<Rightarrow> Schema" where
  "set_Title v s = (case s of Schema x1 x2 x3 x4 x5 x6 x7 x8 x9 x10 x11 x12 x13 x14 x15 x16 x17 x18 x19 x20 \<Rightarrow>
     Schema x1 x2 v x4 x5 x6 x7 x8 x9 x10 x11 x12 x13 x14 x15 x16 x17 x18 x19 x20)"

definition set_Description :: "string \<Rightarrow> Schema \<Rightarrow> Schema" where
  "set_Description v s = (case s of Schema x1 x2 x3 x4 x5 x6 x7 x8 x9 x10 x11 x12 x13 x14 x15 x16 x17 x18 x19 x20 \<Rightarrow>
     Schema x1 x2 x3 v x5 x6 x7 x8 x9 x10 x11 x12 x13 x14 x15 x16 x17 x18 x19 x20)"

definition set_Type :: "string \<Rightarrow> Schema \<Rightarrow> Schema" where
  "set_Type v s = (case s of Schema x1 x2 x3 x4 x5 x6 x7 x8 x9 x10 x11 x12 x13 x14 x15 x16 x17 x18 x19 x20 \<Rightarrow>
     Schema x1 x2 x3 x4 v x6 x7 x8 x9 x10 x11 x12 x13 x14 x15 x16 x17 x18 x19 x20)"

definition set_Format :: "string \<Rightarrow> Schema \<Rightarrow> Schema" where
  "set_Format v s = (case s of Schema x1 x2 x3 x4 x5 x6 x7 x8 x9 x10 x11 x12 x13 x14 x15 x16 x17 x18 x19 x20 \<Rightarrow>
     Schema x1 x2 x3 x4 x5 v x7 x8 x9 x10 x11 x12 x13 x14 x15 x16 x17 x18 x19 x20)"

definition set_Pattern :: "string \<Rightarrow> Schema \<Rightarrow> Schema" where
  "set_Pattern v s = (case s of Schema x1 x2 x3 x4 x5 x6 x7 x8 x9 x10 x11 x12 x13 x14 x15 x16 x17 x18 x19 x20 \<Rightarrow>
     Schema x1 x2 x3 x4 x5 x6 v x8 x9 x10 x11 x12 x13 x14 x15 x16 x17 x18 x19 x20)"

definition set_Enum :: "string list \<Rightarrow> Schema \<Rightarrow> Schema" where
  "set_Enum v s = (case s of Schema x1 x2 x3 x4 x5 x6 x7 x8 x9 x10 x11 x12 x13 x14 x15 x16 x17 x18 x19 x20 \<Rightarrow>
     Schema x1 x2 x3 x4 x5 x6 x7 v x9 x10 x11 x12 x13 x14 x15 x16 x17 x18 x19 x20)"

definition set_Minimum :: "string \<Rightarrow> Schema \<Rightarrow> Schema" where
  "set_Minimum v s = (case s of Schema x1 x2 x3 x4 x5 x6 x7 x8 x9 x10 x11 x12 x13 x14 x15 x16 x17 x18 x19 x20 \<Rightarrow>
     Schema x1 x2 x3 x4 x5 x6 x7 x8 v x10 x11 x12 x13 x14 x15 x16 x17 x18 x19 x20)"

definition set_Maximum :: "string \<Rightarrow> Schema \<Rightarrow> Schema" where
  "set_Maximum v s = (case s of Schema x1 x2 x3 x4 x5 x6 x7 x8 x9 x10 x11 x12 x13 x14 x15 x16 x17 x18 x19 x20 \<Rightarrow>
     Schema x1 x2 x3 x4 x5 x6 x7 x8 x9 v x11 x12 x13 x14 x15 x16 x17 x18 x19 x20)"

definition set_ExclusiveMinimum :: "string \<Rightarrow> Schema \<Rightarrow> Schema" where
  "set_ExclusiveMinimum v s = (case s of Schema x1 x2 x3 x4 x5 x6 x7 x8 x9 x10 x11 x12 x13 x14 x15 x16 x17 x18 x19 x20 \<Rightarrow>
     Schema x1 x2 x3 x4 x5 x6 x7 x8 x9 x10 v x12 x13 x14 x15 x16 x17 x18 x19 x20)"

definition set_ExclusiveMaximum :: "string \<Rightarrow> Schema \<Rightarrow> Schema" where
  "set_ExclusiveMaximum v s = (case s of Schema x1 x2 x3 x4 x5 x6 x7 x8 x9 x10 x11 x12 x13 x14 x15 x16 x17 x18 x19 x20 \<Rightarrow>
     Schema x1 x2 x3 x4 x5 x6 x7 x8 x9 x10 x11 v x13 x14 x15 x16 x17 x18 x19 x20)"

definition set_MinLength :: "nat option \<Rightarrow> Schema \<Rightarrow> Schema" where
  "set_MinLength v s = (case s of Schema x1 x2 x3 x4 x5 x6 x7 x8 x9 x10 x11 x12 x13 x14 x15 x16 x17 x18 x19 x20 \<Rightarrow>
     Schema x1 x2 x3 x4 x5 x6 x7 x8 x9 x10 x11 x12 v x14 x15 x16 x17 x18 x19 x20)"

definition set_MaxLength :: "nat option \<Rightarrow> Schema \<Rightarrow> Schema" where
  "set_MaxLength v s = (case s of Schema x1 x2 x3 x4 x5 x6 x7 x8 x9 x10 x11 x12 x13 x14 x15 x16 x17 x18 x19 x20 \<Rightarrow>
     Schema x1 x2 x3 x4 x5 x6 x7 x8 x9 x10 x11 x12 x13 v x15 x16 x17 x18 x19 x20)"

definition set_Items :: "Schema option \<Rightarrow> Schema \<Rightarrow> Schema" where
  "set_Items v s = (case s of Schema x1 x2 x3 x4 x5 x6 x7 x8 x9 x10 x11 x12 x13 x14 x15 x16 x17 x18 x19 x20 \<Rightarrow>
     Schema x1 x2 x3 x4 x5 x6 x7 x8 x9 x10 x11 x12 x13 x14 v x16 x17 x18 x19 x20)"

definition set_AdditionalProperties :: "Schema option \<Rightarrow> Schema \<Rightarrow> Schema" where
  "set_AdditionalProperties v s = (case s of Schema x1 x2 x3 x4 x5 x6 x7 x8 x9 x10 x11 x12 x13 x14 x15 x16 x17 x18 x19 x20 \<Rightarrow>
     Schema x1 x2 x3 x4 x5 x6 x7 x8 x9 x10 x11 x12 x13 x14 x15 v x17 x18 x19 x20)"

definition set_Ref :: "string \<Rightarrow> Schema \<Rightarrow> Schema" where
  "set_Ref v s = (case s of Schema x1 x2 x3 x4 x5 x6 x7 x8 x9 x10 x11 x12 x13 x14 x15 x16 x17 x18 x19 x20 \<Rightarrow>
     Schema x1 x2 x3 x4 x5 x6 x7 x8 x9 x10 x11 x12 x13 x14 x15 x16 v x18 x19 x20)"

definition set_ContentEncoding :: "string \<Rightarrow> Schema \<Rightarrow> Schema" where
  "set_ContentEncoding v s = (case s of Schema x1 x2 x3 x4 x5 x6 x7 x8 x9 x10 x11 x12 x13 x14 x15 x16 x17 x18 x19 x20 \<Rightarrow>
     Schema x1 x2 x3 x4 x5 x6 x7 x8 x9 x10 x11 x12 x13 x14 x15 x16 x17 v x19 x20)"

definition set_Properties :: "(string \<times> Schema) list option \<Rightarrow> Schema \<Rightarrow> Schema" where
  "set_Properties v s = (case s of Schema x1 x2 x3 x4 x5 x6 x7 x8 x9 x10 x11 x12 x13 x14 x15 x16 x17 x18 x19 x20 \<Rightarrow>
     Schema x1 x2 x3 x4 x5 x6 x7 x8 x9 x10 x11 x12 x13 x14 x15 x16 x17 x18 v x20)"

definition set_Required :: "string list \<Rightarrow> Schema \<Rightarrow> Schema" where
  "set_Required v s = (case s of Schema x1 x2 x3 x4 x5 x6 x7 x8 x9 x10 x11 x12 x13 x14 x15 x16 x17 x18 x19 x20 \<Rightarrow>
     Schema x1 x2 x3 x4 x5 x6 x7 x8 x9 x10 x11 x12 x13 x14 x15 x16 x17 x18 x19 v)"

definition emptySchema :: Schema where
  "emptySchema = Schema [] [] [] [] [] [] [] [] [] [] [] [] None None None None [] [] None []"

text \<open>\<^verbatim>\<open>properties.Set\<close> of the ordered map: a key that is present keeps its place and takes
  the new value, a new key goes to the end.\<close>

fun PropertiesSet :: "string \<Rightarrow> Schema \<Rightarrow> (string \<times> Schema) list \<Rightarrow> (string \<times> Schema) list" where
  "PropertiesSet k v [] = [(k, v)]"
| "PropertiesSet k v (p # ps) = (if fst p = k then (k, v) # ps else p # PropertiesSet k v ps)"

section \<open>The validation rule mapper\<close>

text \<open>
  A 64-bit floating point value as \<^verbatim>\<open>strconv.ParseFloat\<close> returns it: a finite value (a
  rational number), an infinity or not-a-number.
\<close>

datatype float64 = Finite rat | PosInf | NegInf | NaN

text \<open>
  \<^verbatim>\<open>ValidatorMapper\<close> has no fields in the source. In the model it carries the two
  operations of the Go runtime that its methods use and that are not part of the
  repository: \<^verbatim>\<open>strconv.ParseFloat(s, 64)\<close> (\<open>None\<close> when it reports an error), and the
  result of converting to \<^verbatim>\<open>uint64\<close> a floating point value whose integer part does not
  fit, which the language leaves to the implementation.
\<close>

record ValidatorMapper =
  ParseFloat :: "string \<Rightarrow> float64 option"
  uint64Unrepresentable :: "float64 \<Rightarrow> nat"

text \<open>The conversion \<^verbatim>\<open>uint64(val)\<close>: the fraction is discarded (truncation towards zero)
  when the result fits.\<close>

definition truncateRat :: "rat \<Rightarrow> int" where
  "truncateRat q = (if 0 \<le> q then \<lfloor>q\<rfloor> else \<lceil>q\<rceil>)"

definition toUint64 :: "ValidatorMapper \<Rightarrow> float64 \<Rightarrow> nat" where
  "toUint64 m val =
     (case val of
        Finite q \<Rightarrow>
          if 0 \<le> truncateRat q \<and> truncateRat q < 2 ^ 64 then nat (truncateRat q)
          else uint64Unrepresentable m val mod 2 ^ 64
      | _ \<Rightarrow> uint64Unrepresentable m val mod 2 ^ 64)"

text \<open>\<^verbatim>\<open>strconv.ParseUint(s, 10, 64)\<close>: one or more decimal digits, no sign, value below
  \<open>2^64\<close>.\<close>

definition isDigit :: "char \<Rightarrow> bool" where
  "isDigit c = (48 \<le> (of_char c :: nat) \<and> (of_char c :: nat) \<le> 57)"

definition digitsValue :: "string \<Rightarrow> nat" where
  "digitsValue s = foldl (\<lambda>n c. 10 * n + (of_char c - 48)) 0 s"

definition ParseUint :: "string \<Rightarrow> nat option" where
  "ParseUint s =
     (if s \<noteq> [] \<and> list_all isDigit s \<and> digitsValue s < 2 ^ 64 then Some (digitsValue s) else None)"

text \<open>One turn of the loop of \<^verbatim>\<open>applyRulesToSchema\<close>: the \<^verbatim>\<open>switch\<close> on the rule name.\<close>

definition applyRule ::
  "ValidatorMapper \<Rightarrow> bool \<Rightarrow> bool \<Rightarrow> Schema \<times> bool \<Rightarrow> ValidationRule \<Rightarrow> Schema \<times> bool" where
  "applyRule m isString isNumeric acc rule =
     (case acc of (schema, isRequired) \<Rightarrow>
      let name = Name rule; param = Param rule
      in if name = ''required'' then (schema, True)
      else if name = ''omitempty'' then (schema, isRequired)
      else if name = ''min'' then
        (case ParseFloat m param of
           Some val \<Rightarrow>
             if isString then (set_MinLength (Some (toUint64 m val)) schema, isRequired)
             else if isNumeric then (set_Minimum param schema, isRequired)
             else (schema, isRequired)
         | None \<Rightarrow> (schema, isRequired))
      else if name = ''max'' then
        (case ParseFloat m param of
           Some val \<Rightarrow>
             if isString then (set_MaxLength (Some (toUint64 m val)) schema, isRequired)
             else if isNumeric then (set_Maximum param schema, isRequired)
             else (schema, isRequired)
         | None \<Rightarrow> (schema, isRequired))
      else if name = ''len'' then
        (case ParseUint param of
           Some val \<Rightarrow>
             if isString then (set_MaxLength (Some val) (set_MinLength (Some val) schema), isRequired)
             else (schema, isRequired)
         | None \<Rightarrow> (schema, isRequired))
      else if name = ''gte'' then
        (case ParseFloat m param of
           Some val \<Rightarrow> if isNumeric then (set_Minimum param schema, isRequired) else (schema, isRequired)
         | None \<Rightarrow> (schema, isRequired))
      else if name = ''lte'' then
        (case ParseFloat m param of
           Some val \<Rightarrow> if isNumeric then (set_Maximum param schema, isRequired) else (schema, isRequired)
         | None \<Rightarrow> (schema, isRequired))
      else if name = ''gt'' then
        (case ParseFloat m param of
           Some val \<Rightarrow>
             if isNumeric then (set_ExclusiveMinimum param schema, isRequired) else (schema, isRequired)
         | None \<Rightarrow> (schema, isRequired))
      else if name = ''lt'' then
        (case ParseFloat m param of
           Some val \<Rightarrow>
             if isNumeric then (set_ExclusiveMaximum param schema, isRequired) else (schema, isRequired)
         | None \<Rightarrow> (schema, isRequired))
      else if name = ''email'' then (set_Format ''email'' schema, isRequired)
      else if name = ''url'' \<or> name = ''uri'' \<or> name = ''http_url'' then
        (set_Format ''uri'' schema, isRequired)
      else if name = ''uuid'' \<or> name = ''uuid3'' \<or> name = ''uuid4'' \<or> name = ''uuid5'' then
        (set_Format ''uuid'' schema, isRequired)
      else if name = ''ipv4'' then (set_Format ''ipv4'' schema, isRequired)
      else if name = ''ipv6'' then (set_Format ''ipv6'' schema, isRequired)
      else if name = ''ip'' then (set_Format ''ip'' schema, isRequired)
      else if name = ''datetime'' then (set_Format ''date-time'' schema, isRequired)
      else if name = ''date'' then (set_Format ''date'' schema, isRequired)
      else if name = ''oneof'' then
        (let values = Fields param
         in if length values > 0 then (set_Enum values schema, isRequired) else (schema, isRequired))
      else if name = ''alpha'' then (set_Pattern ''^[a-zA-Z]+$'' schema, isRequired)
      else if name = ''alphanum'' then (set_Pattern ''^[a-zA-Z0-9]+$'' schema, isRequired)
      else if name = ''alphanumunicode'' then
        (set_Pattern (''^['' @ CHR 0x5C # ''p{L}'' @ CHR 0x5C # ''p{N}]+$'') schema, isRequired)
      else if name = ''alphaunicode'' then
        (set_Pattern (''^'' @ CHR 0x5C # ''p{L}+$'') schema, isRequired)
      else if name = ''numeric'' then (set_Pattern ''^[0-9]+$'' schema, isRequired)
      else if name = ''hexadecimal'' then (set_Pattern ''^[0-9a-fA-F]+$'' schema, isRequired)
      else if name = ''lowercase'' then (set_Pattern ''^[a-z]+$'' schema, isRequired)
      else if name = ''uppercase'' then (set_Pattern ''^[A-Z]+$'' schema, isRequired)
      else if name = ''contains'' then
        (if param \<noteq> [] then (set_Pattern (QuoteMeta param) schema, isRequired)
         else (schema, isRequired))
      else if name = ''startswith'' then
        (if param \<noteq> [] then (set_Pattern (''^'' @ QuoteMeta param) schema, isRequired)
         else (schema, isRequired))
      else if name = ''endswith'' then
        (if param \<noteq> [] then (set_Pattern (QuoteMeta param @ ''$'') schema, isRequired)
         else (schema, isRequired))
      else if name = ''dive'' then (schema, isRequired)
      else if name = ''hostname'' then (set_Format ''hostname'' schema, isRequired)
      else if name = ''fqdn'' then (set_Format ''hostname'' schema, isRequired)
      else if name = ''json'' then (schema, isRequired)
      else if name = ''base64'' then (set_ContentEncoding ''base64'' schema, isRequired)
      else if name = ''ascii'' then
        (set_Pattern (''^['' @ CHR 0x5C # ''x00-'' @ CHR 0x5C # ''x7F]*$'') schema, isRequired)
      else (schema, isRequired))"

text \<open>\<^verbatim>\<open>applyRulesToSchema\<close>: the two type tests are made once, before the loop; the schema
  is changed in place (here: returned) and the result says whether \<^verbatim>\<open>required\<close> was seen.\<close>

definition applyRulesToSchema ::
  "ValidatorMapper \<Rightarrow> Schema \<Rightarrow> ValidationRule list \<Rightarrow> Schema \<times> bool" where
  "applyRulesToSchema m schema rules =
     (let isString = (Type schema = ''string'');
          isNumeric = (Type schema = ''integer'' \<or> Type schema = ''number'')
      in foldl (applyRule m isString isNumeric) (schema, False) rules)"

text \<open>The search for the first \<^verbatim>\<open>dive\<close> rule; \<open>None\<close> stands for the index \<open>-1\<close>.\<close>

fun findDive :: "ValidationRule list \<Rightarrow> nat option" where
  "findDive [] = None"
| "findDive (rule # rules) =
     (if Name rule = ''dive'' then Some 0
      else (case findDive rules of None \<Rightarrow> None | Some i \<Rightarrow> Some (Suc i)))"

text \<open>\<^verbatim>\<open>ApplyValidation\<close>: the rules after a \<^verbatim>\<open>dive\<close> go to the items schema of an array that
  has one; what that call reports about \<^verbatim>\<open>required\<close> is dropped.\<close>

definition ApplyValidation :: "ValidatorMapper \<Rightarrow> Schema \<Rightarrow> FieldInfo \<Rightarrow> Schema \<times> bool" where
  "ApplyValidation m schema field =
     (case Tags field ''validate'' of
        None \<Rightarrow> (schema, False)
      | Some validateTag \<Rightarrow>
          let rules = parseValidateTag validateTag
          in (case (findDive rules, Items schema) of
                (Some diveIdx, Some items) \<Rightarrow>
                  if Type schema = ''array'' then
                    (let itemRules = drop (diveIdx + 1) rules;
                         items' = fst (applyRulesToSchema m items itemRules);
                         schema' = set_Items (Some items') schema
                     in applyRulesToSchema m schema' (take diveIdx rules))
                  else applyRulesToSchema m schema rules
              | _ \<Rightarrow> applyRulesToSchema m schema rules))"

section \<open>Reference tracker\<close>

text \<open>
  The tracker's set of names is kept as a list without repetitions. \<^verbatim>\<open>GetRefs\<close> ranges over
  a Go map, whose order is not fixed: the order it returns is a parameter, and statements
  about the result are made for every order that lists exactly the recorded names.
\<close>

record RefTracker =
  refs :: "string list"
  basePath :: string

definition NewRefTracker :: RefTracker where
  "NewRefTracker = \<lparr>refs = [], basePath = []\<rparr>"

definition AddRef :: "string \<Rightarrow> RefTracker \<Rightarrow> RefTracker" where
  "AddRef typeName rt = (if typeName \<in> set (refs rt) then rt else rt\<lparr>refs := refs rt @ [typeName]\<rparr>)"

definition GetRefs :: "(string list \<Rightarrow> string list) \<Rightarrow> RefTracker \<Rightarrow> string list" where
  "GetRefs mapOrder rt = mapOrder (refs rt)"

definition HasRef :: "RefTracker \<Rightarrow> string \<Rightarrow> bool" where
  "HasRef rt typeName = (typeName \<in> set (refs rt))"

definition GetRefPath :: "string \<Rightarrow> string" where
  "GetRefPath typeName = ToLower typeName @ ''.schema.json''"

section \<open>Schema derivation\<close>

datatype error =
    CircularReference string
  | CircularDependencyInvolving string
  | CircularDependencyDetected "string list"
  | NoExportedStructs "string list"
  | ParseFailed string
  | WriteFailed string
  | Wrapped string error

text \<open>A Go map from names to structs is an association list read with \<^const>\<open>map_of\<close>; the
  builder's map may be nil.\<close>

record Builder =
  mapper :: ValidatorMapper
  schemaID :: string
  structMap :: "(string \<times> StructInfo) list option"

record InlineContext =
  Enabled :: bool
  ParentInline :: bool
  StructMap :: "(string \<times> StructInfo) list"
  InProgress :: "string set"
  CtxBuilder :: Builder

definition JSONSchemaDraft :: string where
  "JSONSchemaDraft = ''https://json-schema.org/draft/2020-12/schema''"

definition NewBuilder :: "ValidatorMapper \<Rightarrow> string \<Rightarrow> Builder" where
  "NewBuilder m sid = \<lparr>mapper = m, schemaID = sid, structMap = None\<rparr>"


definition primitiveToSchema :: "string \<Rightarrow> string \<times> string" where
  "primitiveToSchema name =
     (if name = ''string'' then (''string'', [])
      else if name \<in> set [''int'', ''int8'', ''int16'', ''int32'', ''int64'',
                           ''uint'', ''uint8'', ''uint16'', ''uint32'', ''uint64'',
                           ''byte'', ''rune''] then (''integer'', [])
      else if name = ''float32'' \<or> name = ''float64'' then (''number'', [])
      else if name = ''bool'' then (''boolean'', [])
      else (''string'', []))"

fun parseOverrideLoop :: "string list \<Rightarrow> string" where
  "parseOverrideLoop [] = []"
| "parseOverrideLoop (part # parts) =
     (let part = TrimSpace part
      in if HasPrefix part ''type='' then TrimPrefix part ''type='' else parseOverrideLoop parts)"

definition parseSchemaTypeOverride :: "string \<Rightarrow> string" where
  "parseSchemaTypeOverride schemaTag = parseOverrideLoop (SplitChar schemaTag (CHR '',''))"

definition shouldInlineStruct :: "InlineContext option \<Rightarrow> bool" where
  "shouldInlineStruct inlineCtx = (case inlineCtx of None \<Rightarrow> False | Some ctx \<Rightarrow> ParentInline ctx)"

text \<open>A schema with a type and, when there is one, a format.\<close>

definition typedSchema :: "string \<times> string \<Rightarrow> Schema" where
  "typedSchema tf =
     (case tf of (schemaType, format) \<Rightarrow>
        if format \<noteq> [] then set_Format format (set_Type schemaType emptySchema)
        else set_Type schemaType emptySchema)"

text \<open>The description taken from the field's doc comment, if it has one.\<close>

definition withFieldDoc :: "FieldInfo \<Rightarrow> Schema \<Rightarrow> Schema" where
  "withFieldDoc field schema =
     (if FieldDoc field \<noteq> [] then set_Description (FieldDoc field) schema else schema)"

text \<open>The number of structs of the map that are not being expanded: it goes down with each
  nested inline expansion.\<close>

definition notInProgress :: "InlineContext \<Rightarrow> nat" where
  "notInProgress ctx = length (filter (\<lambda>p. fst p \<notin> InProgress ctx) (StructMap ctx))"

text \<open>The measures of the termination proof below.\<close>

definition ctxMeasure :: "InlineContext option \<Rightarrow> nat" where
  "ctxMeasure c = (case c of None \<Rightarrow> 0 | Some ctx \<Rightarrow> notInProgress ctx)"

definition fieldsSize :: "FieldInfo list \<Rightarrow> nat" where
  "fieldsSize fs = sum_list (map (\<lambda>f. 3 + size (FieldType f)) fs)"

lemma size_ElemType [termination_simp]: "ElemType t = Some e \<Longrightarrow> size e < size t"
  by (cases t) auto

lemma size_Underlying: "size (Underlying t) \<le> size t"
  by (induction t rule: Underlying.induct) auto

lemma size_ElemType_Underlying [termination_simp]:
  "ElemType (Underlying t) = Some e \<Longrightarrow> size e < size t"
  using size_ElemType [of "Underlying t" e] size_Underlying [of t] by simp

lemma length_filter_less:
  assumes "\<And>y. Q y \<Longrightarrow> P y" and "x \<in> set xs" and "P x" and "\<not> Q x"
  shows "length (filter Q xs) < length (filter P xs)"
  using assms(2)
proof (induction xs)
  case Nil
  then show ?case by simp
next
  case (Cons a as)
  have le: "length (filter Q as) \<le> length (filter P as)"
    using assms(1) by (induction as) auto
  show ?case
  proof (cases "a = x")
    case True
    with le assms(3,4) show ?thesis by simp
  next
    case False
    with Cons have "length (filter Q as) < length (filter P as)" by simp
    with assms(1) show ?thesis by auto
  qed
qed

lemma notInProgress_insert [termination_simp]:
  assumes "map_of (StructMap ctx) name = Some si" and "name \<notin> InProgress ctx"
  shows "notInProgress (ctx\<lparr>InProgress := insert name (InProgress ctx)\<rparr>) < notInProgress ctx"
proof -
  from assms(1) have "(name, si) \<in> set (StructMap ctx)" by (rule map_of_SomeD)
  then show ?thesis
    unfolding notInProgress_def using assms(2)
    by (auto intro!: length_filter_less [where x = "(name, si)"])
qed

text \<open>
  The four functions that build a property schema call each other: a field of struct
  type whose parent prefers inlining is expanded from the struct map, and the expansion
  builds the fields of that struct. \<^verbatim>\<open>inlineStructSchema\<close> marks the name as in progress
  for the duration of the nested call and removes the mark afterwards, so the set is the
  same before and after a call that succeeds; an error aborts the whole derivation. The
  model therefore hands the set down and does not hand it back. The tracker, when there is
  one, is handed back with the names added.
\<close>

function
  BuildFieldSchema ::
    "FieldInfo \<Rightarrow> RefTracker option \<Rightarrow> InlineContext option \<Rightarrow> error + (Schema \<times> RefTracker option)"
and buildElemSchema ::
    "TypeInfo \<Rightarrow> RefTracker option \<Rightarrow> InlineContext option \<Rightarrow> error + (Schema \<times> RefTracker option)"
and inlineStructSchema :: "string \<Rightarrow> InlineContext \<Rightarrow> error + Schema option"
and buildInlineSchema :: "StructInfo \<Rightarrow> InlineContext \<Rightarrow> error + Schema"
and buildInlineFields ::
    "FieldInfo list \<Rightarrow> InlineContext \<Rightarrow> (string \<times> Schema) list \<Rightarrow> string list
       \<Rightarrow> error + ((string \<times> Schema) list \<times> string list)"
where
  "BuildFieldSchema field refTracker inlineCtx =
     (let overrideType =
            (case Tags field ''schema'' of None \<Rightarrow> [] | Some schemaTag \<Rightarrow> parseSchemaTypeOverride schemaTag)
      in if overrideType \<noteq> [] then Inr (withFieldDoc field (set_Type overrideType emptySchema), refTracker)
      else
        let underlying = Underlying (FieldType field)
        in (case Kind underlying of
              TypeKindPrimitive \<Rightarrow>
                Inr (withFieldDoc field (typedSchema (primitiveToSchema (TypeName underlying))), refTracker)
            | TypeKindTime \<Rightarrow>
                Inr (withFieldDoc field (set_Format ''date-time'' (set_Type ''string'' emptySchema)), refTracker)
            | TypeKindDuration \<Rightarrow>
                Inr (withFieldDoc field (set_Format ''duration'' (set_Type ''string'' emptySchema)), refTracker)
            | TypeKindAlias \<Rightarrow>
                Inr (withFieldDoc field (typedSchema (primitiveToSchema (UnderlyingName underlying))), refTracker)
            | TypeKindSlice \<Rightarrow>
                (case ElemType underlying of
                   None \<Rightarrow> Inr (withFieldDoc field (set_Type ''array'' emptySchema), refTracker)
                 | Some elem \<Rightarrow>
                     (case buildElemSchema elem refTracker inlineCtx of
                        Inl err \<Rightarrow> Inl err
                      | Inr (elemSchema, rt') \<Rightarrow>
                          Inr (withFieldDoc field (set_Items (Some elemSchema) (set_Type ''array'' emptySchema)), rt')))
            | TypeKindArray \<Rightarrow>
                (case ElemType underlying of
                   None \<Rightarrow> Inr (withFieldDoc field (set_Type ''array'' emptySchema), refTracker)
                 | Some elem \<Rightarrow>
                     (case buildElemSchema elem refTracker inlineCtx of
                        Inl err \<Rightarrow> Inl err
                      | Inr (elemSchema, rt') \<Rightarrow>
                          Inr (withFieldDoc field (set_Items (Some elemSchema) (set_Type ''array'' emptySchema)), rt')))
            | TypeKindMap \<Rightarrow>
                (case ElemType underlying of
                   None \<Rightarrow> Inr (withFieldDoc field (set_Type ''object'' emptySchema), refTracker)
                 | Some elem \<Rightarrow>
                     (case buildElemSchema elem refTracker inlineCtx of
                        Inl err \<Rightarrow> Inl err
                      | Inr (valueSchema, rt') \<Rightarrow>
                          Inr (withFieldDoc field
                                 (set_AdditionalProperties (Some valueSchema) (set_Type ''object'' emptySchema)), rt')))
            | TypeKindStruct \<Rightarrow>
                if IsExported underlying \<and> PackageName underlying = [] then
                  (case inlineCtx of
                     Some ctx \<Rightarrow>
                       if shouldInlineStruct inlineCtx then
                         (case inlineStructSchema (TypeName underlying) ctx of
                            Inl err \<Rightarrow> Inl err
                          | Inr (Some inlinedSchema) \<Rightarrow>
                              Inr (withFieldDoc field
                                     (set_Description (Description inlinedSchema)
                                       (set_Required (Required inlinedSchema)
                                         (set_Properties (Properties inlinedSchema)
                                           (set_Type (Type inlinedSchema) emptySchema)))), refTracker)
                          | Inr None \<Rightarrow> Inr (withFieldDoc field (set_Type ''object'' emptySchema), refTracker))
                       else
                         (case refTracker of
                            Some rt \<Rightarrow>
                              Inr (withFieldDoc field (set_Ref (GetRefPath (TypeName underlying)) emptySchema),
                                   Some (AddRef (TypeName underlying) rt))
                          | None \<Rightarrow> Inr (withFieldDoc field (set_Type ''object'' emptySchema), refTracker))
                   | None \<Rightarrow>
                       (case refTracker of
                          Some rt \<Rightarrow>
                            Inr (withFieldDoc field (set_Ref (GetRefPath (TypeName underlying)) emptySchema),
                                 Some (AddRef (TypeName underlying) rt))
                        | None \<Rightarrow> Inr (withFieldDoc field (set_Type ''object'' emptySchema), refTracker)))
                else if PackageName underlying \<noteq> [] then
                  Inr (withFieldDoc field (set_Type ''object'' emptySchema), refTracker)
                else Inr (withFieldDoc field (set_Type ''object'' emptySchema), refTracker)
            | TypeKindInterface \<Rightarrow> Inr (withFieldDoc field emptySchema, refTracker)
            | _ \<Rightarrow> Inr (withFieldDoc field (set_Type ''string'' emptySchema), refTracker)))"
| "buildElemSchema typeInfo refTracker inlineCtx =
     (let underlying = Underlying typeInfo
      in (case Kind underlying of
            TypeKindPrimitive \<Rightarrow> Inr (typedSchema (primitiveToSchema (TypeName underlying)), refTracker)
          | TypeKindTime \<Rightarrow> Inr (set_Format ''date-time'' (set_Type ''string'' emptySchema), refTracker)
          | TypeKindDuration \<Rightarrow> Inr (set_Format ''duration'' (set_Type ''string'' emptySchema), refTracker)
          | TypeKindAlias \<Rightarrow> Inr (typedSchema (primitiveToSchema (UnderlyingName underlying)), refTracker)
          | TypeKindStruct \<Rightarrow>
              if IsExported underlying \<and> PackageName underlying = [] then
                (case inlineCtx of
                   Some ctx \<Rightarrow>
                     if shouldInlineStruct inlineCtx then
                       (case inlineStructSchema (TypeName underlying) ctx of
                          Inl err \<Rightarrow> Inl err
                        | Inr (Some inlinedSchema) \<Rightarrow> Inr (inlinedSchema, refTracker)
                        | Inr None \<Rightarrow> Inr (set_Type ''object'' emptySchema, refTracker))
                     else
                       (case refTracker of
                          Some rt \<Rightarrow>
                            Inr (set_Ref (GetRefPath (TypeName underlying)) emptySchema,
                                 Some (AddRef (TypeName underlying) rt))
                        | None \<Rightarrow> Inr (set_Type ''object'' emptySchema, refTracker))
                 | None \<Rightarrow>
                     (case refTracker of
                        Some rt \<Rightarrow>
                          Inr (set_Ref (GetRefPath (TypeName underlying)) emptySchema,
                               Some (AddRef (TypeName underlying) rt))
                      | None \<Rightarrow> Inr (set_Type ''object'' emptySchema, refTracker)))
              else Inr (set_Type ''object'' emptySchema, refTracker)
          | TypeKindSlice \<Rightarrow>
              (case ElemType underlying of
                 None \<Rightarrow> Inr (set_Type ''array'' emptySchema, refTracker)
               | Some elem \<Rightarrow>
                   (case buildElemSchema elem refTracker inlineCtx of
                      Inl err \<Rightarrow> Inl err
                    | Inr (items, rt') \<Rightarrow> Inr (set_Items (Some items) (set_Type ''array'' emptySchema), rt')))
          | TypeKindArray \<Rightarrow>
              (case ElemType underlying of
                 None \<Rightarrow> Inr (set_Type ''array'' emptySchema, refTracker)
               | Some elem \<Rightarrow>
                   (case buildElemSchema elem refTracker inlineCtx of
                      Inl err \<Rightarrow> Inl err
                    | Inr (items, rt') \<Rightarrow> Inr (set_Items (Some items) (set_Type ''array'' emptySchema), rt')))
          | TypeKindMap \<Rightarrow>
              (case ElemType underlying of
                 None \<Rightarrow> Inr (set_Type ''object'' emptySchema, refTracker)
               | Some elem \<Rightarrow>
                   (case buildElemSchema elem refTracker inlineCtx of
                      Inl err \<Rightarrow> Inl err
                    | Inr (additionalProps, rt') \<Rightarrow>
                        Inr (set_AdditionalProperties (Some additionalProps) (set_Type ''object'' emptySchema), rt')))
          | _ \<Rightarrow> Inr (emptySchema, refTracker)))"
| "inlineStructSchema name inlineCtx =
     (case map_of (StructMap inlineCtx) name of
        None \<Rightarrow> Inr None
      | Some structInfo \<Rightarrow>
          if name \<in> InProgress inlineCtx then Inl (CircularReference name)
          else
            (case buildInlineSchema structInfo (inlineCtx\<lparr>InProgress := insert name (InProgress inlineCtx)\<rparr>) of
               Inl err \<Rightarrow> Inl err
             | Inr inlinedSchema \<Rightarrow> Inr (Some inlinedSchema)))"
| "buildInlineSchema structInfo inlineCtx =
     (let schema = set_Type ''object'' emptySchema;
          schema = (if StructDoc structInfo \<noteq> [] then set_Description (StructDoc structInfo) schema else schema)
      in (case buildInlineFields (StructFields structInfo) inlineCtx [] [] of
            Inl err \<Rightarrow> Inl err
          | Inr (properties, required) \<Rightarrow>
              let schema = set_Properties (Some properties) schema
              in Inr (if length required > 0 then set_Required required schema else schema)))"
| "buildInlineFields [] inlineCtx properties required = Inr (properties, required)"
| "buildInlineFields (field # rest) inlineCtx properties required =
     (case BuildFieldSchema field None (Some inlineCtx) of
        Inl err \<Rightarrow> Inl err
      | Inr (fieldSchema, _) \<Rightarrow>
          (case ApplyValidation (mapper (CtxBuilder inlineCtx)) fieldSchema field of
             (fieldSchema', isRequired) \<Rightarrow>
               buildInlineFields rest inlineCtx
                 (PropertiesSet (PropertyName field) fieldSchema' properties)
                 (if isRequired \<and> \<not> OmitEmpty field then required @ [PropertyName field] else required)))"
  by pat_completeness auto

termination
  apply (relation "measures [
     (\<lambda>x. case x of
        Inl (Inl (field, rt, c)) \<Rightarrow> ctxMeasure c
      | Inl (Inr (t, rt, c)) \<Rightarrow> ctxMeasure c
      | Inr (Inl (name, ctx)) \<Rightarrow> notInProgress ctx
      | Inr (Inr (Inl (si, ctx))) \<Rightarrow> notInProgress ctx
      | Inr (Inr (Inr (fs, ctx, ps, rq))) \<Rightarrow> notInProgress ctx),
     (\<lambda>x. case x of
        Inl (Inl (field, rt, c)) \<Rightarrow> 2 + size (FieldType field)
      | Inl (Inr (t, rt, c)) \<Rightarrow> 1 + size t
      | Inr (Inl (name, ctx)) \<Rightarrow> 0
      | Inr (Inr (Inl (si, ctx))) \<Rightarrow> 2 + fieldsSize (StructFields si)
      | Inr (Inr (Inr (fs, ctx, ps, rq))) \<Rightarrow> 1 + fieldsSize fs)]")
  apply (auto simp: ctxMeasure_def fieldsSize_def termination_simp)
  done


text \<open>The loop of \<^verbatim>\<open>BuildSchema\<close> over the fields, in declaration order.\<close>

fun buildSchemaFields ::
  "Builder \<Rightarrow> FieldInfo list \<Rightarrow> RefTracker option \<Rightarrow> InlineContext option
     \<Rightarrow> (string \<times> Schema) list \<Rightarrow> string list
     \<Rightarrow> error + ((string \<times> Schema) list \<times> string list \<times> RefTracker option)" where
  "buildSchemaFields b [] refTracker inlineCtx properties required = Inr (properties, required, refTracker)"
| "buildSchemaFields b (field # rest) refTracker inlineCtx properties required =
     (case BuildFieldSchema field refTracker inlineCtx of
        Inl err \<Rightarrow> Inl err
      | Inr (fieldSchema, refTracker') \<Rightarrow>
          (case ApplyValidation (mapper b) fieldSchema field of
             (fieldSchema', isRequired) \<Rightarrow>
               buildSchemaFields b rest refTracker' inlineCtx
                 (PropertiesSet (PropertyName field) fieldSchema' properties)
                 (if isRequired \<and> \<not> OmitEmpty field then required @ [PropertyName field] else required)))"

definition BuildSchema ::
  "Builder \<Rightarrow> StructInfo \<Rightarrow> RefTracker option \<Rightarrow> error + (Schema \<times> RefTracker option)" where
  "BuildSchema b structInfo refTracker =
     (let inlineCtx =
            (case structMap b of
               None \<Rightarrow> None
             | Some sm \<Rightarrow>
                 Some \<lparr>Enabled = False, ParentInline = Inline structInfo, StructMap = sm,
                       InProgress = {StructName structInfo}, CtxBuilder = b\<rparr>);
          schema = set_Type ''object'' (set_Title (StructName structInfo) (set_Version JSONSchemaDraft emptySchema));
          schema = (if schemaID b \<noteq> []
                    then set_ID (schemaID b @ ''/'' @ ToLower (StructName structInfo) @ ''.schema.json'') schema
                    else schema);
          schema = (if StructDoc structInfo \<noteq> [] then set_Description (StructDoc structInfo) schema else schema)
      in (case buildSchemaFields b (StructFields structInfo) refTracker inlineCtx [] [] of
            Inl err \<Rightarrow> Inl err
          | Inr (properties, required, refTracker') \<Rightarrow>
              let schema = set_Properties (Some properties) schema
              in Inr (if length required > 0 then set_Required required schema else schema, refTracker')))"

text \<open>\<^verbatim>\<open>BuildSchemaWithRefs\<close>: a fresh tracker and a copy of the struct with the inline
  preference switched off; the names come back in the order in which the tracker's map is
  ranged over.\<close>

definition BuildSchemaWithRefs ::
  "(string list \<Rightarrow> string list) \<Rightarrow> Builder \<Rightarrow> StructInfo \<Rightarrow> error + (Schema \<times> string list)" where
  "BuildSchemaWithRefs rangeOrder b structInfo =
     (let refTracker = NewRefTracker;
          nonInlineInfo = structInfo\<lparr>Inline := False\<rparr>
      in (case BuildSchema b nonInlineInfo (Some refTracker) of
            Inl err \<Rightarrow> Inl err
          | Inr (schema, refTracker') \<Rightarrow>
              Inr (schema, GetRefs rangeOrder (case refTracker' of None \<Rightarrow> refTracker | Some rt \<Rightarrow> rt))))"

section \<open>Dependency graph\<close>

















section \<open>The generator\<close>



record MapRange =
  rangeOrder :: "string list \<Rightarrow> string list"
  rangeGrowing :: "string list \<Rightarrow> string list"




definition GetSchemaFilename :: "string \<Rightarrow> string" where
  "GetSchemaFilename typeName = ToLower typeName @ ''.schema.json''"
















section \<open>Properties of the tokenization\<close>

















section \<open>Reading a field after a write\<close>

text \<open>Writing one field of a schema changes that field and no other.\<close>

lemma sel_set_Version [simp]:
  "Version (set_Version v s) = v"
  "ID (set_Version v s) = ID s"
  "Title (set_Version v s) = Title s"
  "Description (set_Version v s) = Description s"
  "Type (set_Version v s) = Type s"
  "Format (set_Version v s) = Format s"
  "Pattern (set_Version v s) = Pattern s"
  "Enum (set_Version v s) = Enum s"
  "Minimum (set_Version v s) = Minimum s"
  "Maximum (set_Version v s) = Maximum s"
  "ExclusiveMinimum (set_Version v s) = ExclusiveMinimum s"
  "ExclusiveMaximum (set_Version v s) = ExclusiveMaximum s"
  "MinLength (set_Version v s) = MinLength s"
  "MaxLength (set_Version v s) = MaxLength s"
  "Items (set_Version v s) = Items s"
  "AdditionalProperties (set_Version v s) = AdditionalProperties s"
  "Ref (set_Version v s) = Ref s"
  "ContentEncoding (set_Version v s) = ContentEncoding s"
  "Properties (set_Version v s) = Properties s"
  "Required (set_Version v s) = Required s"
  by (cases s; simp add: set_Version_def)+

lemma sel_set_ID [simp]:
  "Version (set_ID v s) = Version s"
  "ID (set_ID v s) = v"
  "Title (set_ID v s) = Title s"
  "Description (set_ID v s) = Description s"
  "Type (set_ID v s) = Type s"
  "Format (set_ID v s) = Format s"
  "Pattern (set_ID v s) = Pattern s"
  "Enum (set_ID v s) = Enum s"
  "Minimum (set_ID v s) = Minimum s"
  "Maximum (set_ID v s) = Maximum s"
  "ExclusiveMinimum (set_ID v s) = ExclusiveMinimum s"
  "ExclusiveMaximum (set_ID v s) = ExclusiveMaximum s"
  "MinLength (set_ID v s) = MinLength s"
  "MaxLength (set_ID v s) = MaxLength s"
  "Items (set_ID v s) = Items s"
  "AdditionalProperties (set_ID v s) = AdditionalProperties s"
  "Ref (set_ID v s) = Ref s"
  "ContentEncoding (set_ID v s) = ContentEncoding s"
  "Properties (set_ID v s) = Properties s"
  "Required (set_ID v s) = Required s"
  by (cases s; simp add: set_ID_def)+

lemma sel_set_Title [simp]:
  "Version (set_Title v s) = Version s"
  "ID (set_Title v s) = ID s"
  "Title (set_Title v s) = v"
  "Description (set_Title v s) = Description s"
  "Type (set_Title v s) = Type s"
  "Format (set_Title v s) = Format s"
  "Pattern (set_Title v s) = Pattern s"
  "Enum (set_Title v s) = Enum s"
  "Minimum (set_Title v s) = Minimum s"
  "Maximum (set_Title v s) = Maximum s"
  "ExclusiveMinimum (set_Title v s) = ExclusiveMinimum s"
  "ExclusiveMaximum (set_Title v s) = ExclusiveMaximum s"
  "MinLength (set_Title v s) = MinLength s"
  "MaxLength (set_Title v s) = MaxLength s"
  "Items (set_Title v s) = Items s"
  "AdditionalProperties (set_Title v s) = AdditionalProperties s"
  "Ref (set_Title v s) = Ref s"
  "ContentEncoding (set_Title v s) = ContentEncoding s"
  "Properties (set_Title v s) = Properties s"
  "Required (set_Title v s) = Required s"
  by (cases s; simp add: set_Title_def)+

lemma sel_set_Description [simp]:
  "Version (set_Description v s) = Version s"
  "ID (set_Description v s) = ID s"
  "Title (set_Description v s) = Title s"
  "Description (set_Description v s) = v"
  "Type (set_Description v s) = Type s"
  "Format (set_Description v s) = Format s"
  "Pattern (set_Description v s) = Pattern s"
  "Enum (set_Description v s) = Enum s"
  "Minimum (set_Description v s) = Minimum s"
  "Maximum (set_Description v s) = Maximum s"
  "ExclusiveMinimum (set_Description v s) = ExclusiveMinimum s"
  "ExclusiveMaximum (set_Description v s) = ExclusiveMaximum s"
  "MinLength (set_Description v s) = MinLength s"
  "MaxLength (set_Description v s) = MaxLength s"
  "Items (set_Description v s) = Items s"
  "AdditionalProperties (set_Description v s) = AdditionalProperties s"
  "Ref (set_Description v s) = Ref s"
  "ContentEncoding (set_Description v s) = ContentEncoding s"
  "Properties (set_Description v s) = Properties s"
  "Required (set_Description v s) = Required s"
  by (cases s; simp add: set_Description_def)+

lemma sel_set_Type [simp]:
  "Version (set_Type v s) = Version s"
  "ID (set_Type v s) = ID s"
  "Title (set_Type v s) = Title s"
  "Description (set_Type v s) = Description s"
  "Type (set_Type v s) = v"
  "Format (set_Type v s) = Format s"
  "Pattern (set_Type v s) = Pattern s"
  "Enum (set_Type v s) = Enum s"
  "Minimum (set_Type v s) = Minimum s"
  "Maximum (set_Type v s) = Maximum s"
  "ExclusiveMinimum (set_Type v s) = ExclusiveMinimum s"
  "ExclusiveMaximum (set_Type v s) = ExclusiveMaximum s"
  "MinLength (set_Type v s) = MinLength s"
  "MaxLength (set_Type v s) = MaxLength s"
  "Items (set_Type v s) = Items s"
  "AdditionalProperties (set_Type v s) = AdditionalProperties s"
  "Ref (set_Type v s) = Ref s"
  "ContentEncoding (set_Type v s) = ContentEncoding s"
  "Properties (set_Type v s) = Properties s"
  "Required (set_Type v s) = Required s"
  by (cases s; simp add: set_Type_def)+

lemma sel_set_Format [simp]:
  "Version (set_Format v s) = Version s"
  "ID (set_Format v s) = ID s"
  "Title (set_Format v s) = Title s"
  "Description (set_Format v s) = Description s"
  "Type (set_Format v s) = Type s"
  "Format (set_Format v s) = v"
  "Pattern (set_Format v s) = Pattern s"
  "Enum (set_Format v s) = Enum s"
  "Minimum (set_Format v s) = Minimum s"
  "Maximum (set_Format v s) = Maximum s"
  "ExclusiveMinimum (set_Format v s) = ExclusiveMinimum s"
  "ExclusiveMaximum (set_Format v s) = ExclusiveMaximum s"
  "MinLength (set_Format v s) = MinLength s"
  "MaxLength (set_Format v s) = MaxLength s"
  "Items (set_Format v s) = Items s"
  "AdditionalProperties (set_Format v s) = AdditionalProperties s"
  "Ref (set_Format v s) = Ref s"
  "ContentEncoding (set_Format v s) = ContentEncoding s"
  "Properties (set_Format v s) = Properties s"
  "Required (set_Format v s) = Required s"
  by (cases s; simp add: set_Format_def)+

lemma sel_set_Pattern [simp]:
  "Version (set_Pattern v s) = Version s"
  "ID (set_Pattern v s) = ID s"
  "Title (set_Pattern v s) = Title s"
  "Description (set_Pattern v s) = Description s"
  "Type (set_Pattern v s) = Type s"
  "Format (set_Pattern v s) = Format s"
  "Pattern (set_Pattern v s) = v"
  "Enum (set_Pattern v s) = Enum s"
  "Minimum (set_Pattern v s) = Minimum s"
  "Maximum (set_Pattern v s) = Maximum s"
  "ExclusiveMinimum (set_Pattern v s) = ExclusiveMinimum s"
  "ExclusiveMaximum (set_Pattern v s) = ExclusiveMaximum s"
  "MinLength (set_Pattern v s) = MinLength s"
  "MaxLength (set_Pattern v s) = MaxLength s"
  "Items (set_Pattern v s) = Items s"
  "AdditionalProperties (set_Pattern v s) = AdditionalProperties s"
  "Ref (set_Pattern v s) = Ref s"
  "ContentEncoding (set_Pattern v s) = ContentEncoding s"
  "Properties (set_Pattern v s) = Properties s"
  "Required (set_Pattern v s) = Required s"
  by (cases s; simp add: set_Pattern_def)+

lemma sel_set_Enum [simp]:
  "Version (set_Enum v s) = Version s"
  "ID (set_Enum v s) = ID s"
  "Title (set_Enum v s) = Title s"
  "Description (set_Enum v s) = Description s"
  "Type (set_Enum v s) = Type s"
  "Format (set_Enum v s) = Format s"
  "Pattern (set_Enum v s) = Pattern s"
  "Enum (set_Enum v s) = v"
  "Minimum (set_Enum v s) = Minimum s"
  "Maximum (set_Enum v s) = Maximum s"
  "ExclusiveMinimum (set_Enum v s) = ExclusiveMinimum s"
  "ExclusiveMaximum (set_Enum v s) = ExclusiveMaximum s"
  "MinLength (set_Enum v s) = MinLength s"
  "MaxLength (set_Enum v s) = MaxLength s"
  "Items (set_Enum v s) = Items s"
  "AdditionalProperties (set_Enum v s) = AdditionalProperties s"
  "Ref (set_Enum v s) = Ref s"
  "ContentEncoding (set_Enum v s) = ContentEncoding s"
  "Properties (set_Enum v s) = Properties s"
  "Required (set_Enum v s) = Required s"
  by (cases s; simp add: set_Enum_def)+

lemma sel_set_Minimum [simp]:
  "Version (set_Minimum v s) = Version s"
  "ID (set_Minimum v s) = ID s"
  "Title (set_Minimum v s) = Title s"
  "Description (set_Minimum v s) = Description s"
  "Type (set_Minimum v s) = Type s"
  "Format (set_Minimum v s) = Format s"
  "Pattern (set_Minimum v s) = Pattern s"
  "Enum (set_Minimum v s) = Enum s"
  "Minimum (set_Minimum v s) = v"
  "Maximum (set_Minimum v s) = Maximum s"
  "ExclusiveMinimum (set_Minimum v s) = ExclusiveMinimum s"
  "ExclusiveMaximum (set_Minimum v s) = ExclusiveMaximum s"
  "MinLength (set_Minimum v s) = MinLength s"
  "MaxLength (set_Minimum v s) = MaxLength s"
  "Items (set_Minimum v s) = Items s"
  "AdditionalProperties (set_Minimum v s) = AdditionalProperties s"
  "Ref (set_Minimum v s) = Ref s"
  "ContentEncoding (set_Minimum v s) = ContentEncoding s"
  "Properties (set_Minimum v s) = Properties s"
  "Required (set_Minimum v s) = Required s"
  by (cases s; simp add: set_Minimum_def)+

lemma sel_set_Maximum [simp]:
  "Version (set_Maximum v s) = Version s"
  "ID (set_Maximum v s) = ID s"
  "Title (set_Maximum v s) = Title s"
  "Description (set_Maximum v s) = Description s"
  "Type (set_Maximum v s) = Type s"
  "Format (set_Maximum v s) = Format s"
  "Pattern (set_Maximum v s) = Pattern s"
  "Enum (set_Maximum v s) = Enum s"
  "Minimum (set_Maximum v s) = Minimum s"
  "Maximum (set_Maximum v s) = v"
  "ExclusiveMinimum (set_Maximum v s) = ExclusiveMinimum s"
  "ExclusiveMaximum (set_Maximum v s) = ExclusiveMaximum s"
  "MinLength (set_Maximum v s) = MinLength s"
  "MaxLength (set_Maximum v s) = MaxLength s"
  "Items (set_Maximum v s) = Items s"
  "AdditionalProperties (set_Maximum v s) = AdditionalProperties s"
  "Ref (set_Maximum v s) = Ref s"
  "ContentEncoding (set_Maximum v s) = ContentEncoding s"
  "Properties (set_Maximum v s) = Properties s"
  "Required (set_Maximum v s) = Required s"
  by (cases s; simp add: set_Maximum_def)+

lemma sel_set_ExclusiveMinimum [simp]:
  "Version (set_ExclusiveMinimum v s) = Version s"
  "ID (set_ExclusiveMinimum v s) = ID s"
  "Title (set_ExclusiveMinimum v s) = Title s"
  "Description (set_ExclusiveMinimum v s) = Description s"
  "Type (set_ExclusiveMinimum v s) = Type s"
  "Format (set_ExclusiveMinimum v s) = Format s"
  "Pattern (set_ExclusiveMinimum v s) = Pattern s"
  "Enum (set_ExclusiveMinimum v s) = Enum s"
  "Minimum (set_ExclusiveMinimum v s) = Minimum s"
  "Maximum (set_ExclusiveMinimum v s) = Maximum s"
  "ExclusiveMinimum (set_ExclusiveMinimum v s) = v"
  "ExclusiveMaximum (set_ExclusiveMinimum v s) = ExclusiveMaximum s"
  "MinLength (set_ExclusiveMinimum v s) = MinLength s"
  "MaxLength (set_ExclusiveMinimum v s) = MaxLength s"
  "Items (set_ExclusiveMinimum v s) = Items s"
  "AdditionalProperties (set_ExclusiveMinimum v s) = AdditionalProperties s"
  "Ref (set_ExclusiveMinimum v s) = Ref s"
  "ContentEncoding (set_ExclusiveMinimum v s) = ContentEncoding s"
  "Properties (set_ExclusiveMinimum v s) = Properties s"
  "Required (set_ExclusiveMinimum v s) = Required s"
  by (cases s; simp add: set_ExclusiveMinimum_def)+

lemma sel_set_ExclusiveMaximum [simp]:
  "Version (set_ExclusiveMaximum v s) = Version s"
  "ID (set_ExclusiveMaximum v s) = ID s"
  "Title (set_ExclusiveMaximum v s) = Title s"
  "Description (set_ExclusiveMaximum v s) = Description s"
  "Type (set_ExclusiveMaximum v s) = Type s"
  "Format (set_ExclusiveMaximum v s) = Format s"
  "Pattern (set_ExclusiveMaximum v s) = Pattern s"
  "Enum (set_ExclusiveMaximum v s) = Enum s"
  "Minimum (set_ExclusiveMaximum v s) = Minimum s"
  "Maximum (set_ExclusiveMaximum v s) = Maximum s"
  "ExclusiveMinimum (set_ExclusiveMaximum v s) = ExclusiveMinimum s"
  "ExclusiveMaximum (set_ExclusiveMaximum v s) = v"
  "MinLength (set_ExclusiveMaximum v s) = MinLength s"
  "MaxLength (set_ExclusiveMaximum v s) = MaxLength s"
  "Items (set_ExclusiveMaximum v s) = Items s"
  "AdditionalProperties (set_ExclusiveMaximum v s) = AdditionalProperties s"
  "Ref (set_ExclusiveMaximum v s) = Ref s"
  "ContentEncoding (set_ExclusiveMaximum v s) = ContentEncoding s"
  "Properties (set_ExclusiveMaximum v s) = Properties s"
  "Required (set_ExclusiveMaximum v s) = Required s"
  by (cases s; simp add: set_ExclusiveMaximum_def)+

lemma sel_set_MinLength [simp]:
  "Version (set_MinLength v s) = Version s"
  "ID (set_MinLength v s) = ID s"
  "Title (set_MinLength v s) = Title s"
  "Description (set_MinLength v s) = Description s"
  "Type (set_MinLength v s) = Type s"
  "Format (set_MinLength v s) = Format s"
  "Pattern (set_MinLength v s) = Pattern s"
  "Enum (set_MinLength v s) = Enum s"
  "Minimum (set_MinLength v s) = Minimum s"
  "Maximum (set_MinLength v s) = Maximum s"
  "ExclusiveMinimum (set_MinLength v s) = ExclusiveMinimum s"
  "ExclusiveMaximum (set_MinLength v s) = ExclusiveMaximum s"
  "MinLength (set_MinLength v s) = v"
  "MaxLength (set_MinLength v s) = MaxLength s"
  "Items (set_MinLength v s) = Items s"
  "AdditionalProperties (set_MinLength v s) = AdditionalProperties s"
  "Ref (set_MinLength v s) = Ref s"
  "ContentEncoding (set_MinLength v s) = ContentEncoding s"
  "Properties (set_MinLength v s) = Properties s"
  "Required (set_MinLength v s) = Required s"
  by (cases s; simp add: set_MinLength_def)+

lemma sel_set_MaxLength [simp]:
  "Version (set_MaxLength v s) = Version s"
  "ID (set_MaxLength v s) = ID s"
  "Title (set_MaxLength v s) = Title s"
  "Description (set_MaxLength v s) = Description s"
  "Type (set_MaxLength v s) = Type s"
  "Format (set_MaxLength v s) = Format s"
  "Pattern (set_MaxLength v s) = Pattern s"
  "Enum (set_MaxLength v s) = Enum s"
  "Minimum (set_MaxLength v s) = Minimum s"
  "Maximum (set_MaxLength v s) = Maximum s"
  "ExclusiveMinimum (set_MaxLength v s) = ExclusiveMinimum s"
  "ExclusiveMaximum (set_MaxLength v s) = ExclusiveMaximum s"
  "MinLength (set_MaxLength v s) = MinLength s"
  "MaxLength (set_MaxLength v s) = v"
  "Items (set_MaxLength v s) = Items s"
  "AdditionalProperties (set_MaxLength v s) = AdditionalProperties s"
  "Ref (set_MaxLength v s) = Ref s"
  "ContentEncoding (set_MaxLength v s) = ContentEncoding s"
  "Properties (set_MaxLength v s) = Properties s"
  "Required (set_MaxLength v s) = Required s"
  by (cases s; simp add: set_MaxLength_def)+

lemma sel_set_Items [simp]:
  "Version (set_Items v s) = Version s"
  "ID (set_Items v s) = ID s"
  "Title (set_Items v s) = Title s"
  "Description (set_Items v s) = Description s"
  "Type (set_Items v s) = Type s"
  "Format (set_Items v s) = Format s"
  "Pattern (set_Items v s) = Pattern s"
  "Enum (set_Items v s) = Enum s"
  "Minimum (set_Items v s) = Minimum s"
  "Maximum (set_Items v s) = Maximum s"
  "ExclusiveMinimum (set_Items v s) = ExclusiveMinimum s"
  "ExclusiveMaximum (set_Items v s) = ExclusiveMaximum s"
  "MinLength (set_Items v s) = MinLength s"
  "MaxLength (set_Items v s) = MaxLength s"
  "Items (set_Items v s) = v"
  "AdditionalProperties (set_Items v s) = AdditionalProperties s"
  "Ref (set_Items v s) = Ref s"
  "ContentEncoding (set_Items v s) = ContentEncoding s"
  "Properties (set_Items v s) = Properties s"
  "Required (set_Items v s) = Required s"
  by (cases s; simp add: set_Items_def)+

lemma sel_set_AdditionalProperties [simp]:
  "Version (set_AdditionalProperties v s) = Version s"
  "ID (set_AdditionalProperties v s) = ID s"
  "Title (set_AdditionalProperties v s) = Title s"
  "Description (set_AdditionalProperties v s) = Description s"
  "Type (set_AdditionalProperties v s) = Type s"
  "Format (set_AdditionalProperties v s) = Format s"
  "Pattern (set_AdditionalProperties v s) = Pattern s"
  "Enum (set_AdditionalProperties v s) = Enum s"
  "Minimum (set_AdditionalProperties v s) = Minimum s"
  "Maximum (set_AdditionalProperties v s) = Maximum s"
  "ExclusiveMinimum (set_AdditionalProperties v s) = ExclusiveMinimum s"
  "ExclusiveMaximum (set_AdditionalProperties v s) = ExclusiveMaximum s"
  "MinLength (set_AdditionalProperties v s) = MinLength s"
  "MaxLength (set_AdditionalProperties v s) = MaxLength s"
  "Items (set_AdditionalProperties v s) = Items s"
  "AdditionalProperties (set_AdditionalProperties v s) = v"
  "Ref (set_AdditionalProperties v s) = Ref s"
  "ContentEncoding (set_AdditionalProperties v s) = ContentEncoding s"
  "Properties (set_AdditionalProperties v s) = Properties s"
  "Required (set_AdditionalProperties v s) = Required s"
  by (cases s; simp add: set_AdditionalProperties_def)+

lemma sel_set_Ref [simp]:
  "Version (set_Ref v s) = Version s"
  "ID (set_Ref v s) = ID s"
  "Title (set_Ref v s) = Title s"
  "Description (set_Ref v s) = Description s"
  "Type (set_Ref v s) = Type s"
  "Format (set_Ref v s) = Format s"
  "Pattern (set_Ref v s) = Pattern s"
  "Enum (set_Ref v s) = Enum s"
  "Minimum (set_Ref v s) = Minimum s"
  "Maximum (set_Ref v s) = Maximum s"
  "ExclusiveMinimum (set_Ref v s) = ExclusiveMinimum s"
  "ExclusiveMaximum (set_Ref v s) = ExclusiveMaximum s"
  "MinLength (set_Ref v s) = MinLength s"
  "MaxLength (set_Ref v s) = MaxLength s"
  "Items (set_Ref v s) = Items s"
  "AdditionalProperties (set_Ref v s) = AdditionalProperties s"
  "Ref (set_Ref v s) = v"
  "ContentEncoding (set_Ref v s) = ContentEncoding s"
  "Properties (set_Ref v s) = Properties s"
  "Required (set_Ref v s) = Required s"
  by (cases s; simp add: set_Ref_def)+

lemma sel_set_ContentEncoding [simp]:
  "Version (set_ContentEncoding v s) = Version s"
  "ID (set_ContentEncoding v s) = ID s"
  "Title (set_ContentEncoding v s) = Title s"
  "Description (set_ContentEncoding v s) = Description s"
  "Type (set_ContentEncoding v s) = Type s"
  "Format (set_ContentEncoding v s) = Format s"
  "Pattern (set_ContentEncoding v s) = Pattern s"
  "Enum (set_ContentEncoding v s) = Enum s"
  "Minimum (set_ContentEncoding v s) = Minimum s"
  "Maximum (set_ContentEncoding v s) = Maximum s"
  "ExclusiveMinimum (set_ContentEncoding v s) = ExclusiveMinimum s"
  "ExclusiveMaximum (set_ContentEncoding v s) = ExclusiveMaximum s"
  "MinLength (set_ContentEncoding v s) = MinLength s"
  "MaxLength (set_ContentEncoding v s) = MaxLength s"
  "Items (set_ContentEncoding v s) = Items s"
  "AdditionalProperties (set_ContentEncoding v s) = AdditionalProperties s"
  "Ref (set_ContentEncoding v s) = Ref s"
  "ContentEncoding (set_ContentEncoding v s) = v"
  "Properties (set_ContentEncoding v s) = Properties s"
  "Required (set_ContentEncoding v s) = Required s"
  by (cases s; simp add: set_ContentEncoding_def)+

lemma sel_set_Properties [simp]:
  "Version (set_Properties v s) = Version s"
  "ID (set_Properties v s) = ID s"
  "Title (set_Properties v s) = Title s"
  "Description (set_Properties v s) = Description s"
  "Type (set_Properties v s) = Type s"
  "Format (set_Properties v s) = Format s"
  "Pattern (set_Properties v s) = Pattern s"
  "Enum (set_Properties v s) = Enum s"
  "Minimum (set_Properties v s) = Minimum s"
  "Maximum (set_Properties v s) = Maximum s"
  "ExclusiveMinimum (set_Properties v s) = ExclusiveMinimum s"
  "ExclusiveMaximum (set_Properties v s) = ExclusiveMaximum s"
  "MinLength (set_Properties v s) = MinLength s"
  "MaxLength (set_Properties v s) = MaxLength s"
  "Items (set_Properties v s) = Items s"
  "AdditionalProperties (set_Properties v s) = AdditionalProperties s"
  "Ref (set_Properties v s) = Ref s"
  "ContentEncoding (set_Properties v s) = ContentEncoding s"
  "Properties (set_Properties v s) = v"
  "Required (set_Properties v s) = Required s"
  by (cases s; simp add: set_Properties_def)+

lemma sel_set_Required [simp]:
  "Version (set_Required v s) = Version s"
  "ID (set_Required v s) = ID s"
  "Title (set_Required v s) = Title s"
  "Description (set_Required v s) = Description s"
  "Type (set_Required v s) = Type s"
  "Format (set_Required v s) = Format s"
  "Pattern (set_Required v s) = Pattern s"
  "Enum (set_Required v s) = Enum s"
  "Minimum (set_Required v s) = Minimum s"
  "Maximum (set_Required v s) = Maximum s"
  "ExclusiveMinimum (set_Required v s) = ExclusiveMinimum s"
  "ExclusiveMaximum (set_Required v s) = ExclusiveMaximum s"
  "MinLength (set_Required v s) = MinLength s"
  "MaxLength (set_Required v s) = MaxLength s"
  "Items (set_Required v s) = Items s"
  "AdditionalProperties (set_Required v s) = AdditionalProperties s"
  "Ref (set_Required v s) = Ref s"
  "ContentEncoding (set_Required v s) = ContentEncoding s"
  "Properties (set_Required v s) = Properties s"
  "Required (set_Required v s) = v"
  by (cases s; simp add: set_Required_def)+

lemma sel_emptySchema [simp]:
  "Version emptySchema = []" "ID emptySchema = []" "Title emptySchema = []"
  "Description emptySchema = []" "Type emptySchema = []" "Format emptySchema = []"
  "Pattern emptySchema = []" "Enum emptySchema = []" "Minimum emptySchema = []"
  "Maximum emptySchema = []" "ExclusiveMinimum emptySchema = []"
  "ExclusiveMaximum emptySchema = []" "MinLength emptySchema = None"
  "MaxLength emptySchema = None" "Items emptySchema = None"
  "AdditionalProperties emptySchema = None" "Ref emptySchema = []"
  "ContentEncoding emptySchema = []" "Properties emptySchema = None"
  "Required emptySchema = []"
  by (simp_all add: emptySchema_def)

section \<open>The bound rules\<close>

text \<open>
  A mapper for the examples. Its \<open>ParseFloat\<close> agrees with \<^verbatim>\<open>strconv.ParseFloat\<close> on the
  strings the examples use: \<^verbatim>\<open>2.9\<close> is the 64-bit value nearest to it,
  \<open>6530219459687219 / 2^51\<close>; \<^verbatim>\<open>-2.5\<close> and the digit strings below \<open>2^53\<close> are exact;
  a string such as \<^verbatim>\<open>abc\<close> is an error. No example depends on its value elsewhere.
\<close>

definition sampleParseFloat :: "string \<Rightarrow> float64 option" where
  "sampleParseFloat s =
     (if s = ''2.9'' then Some (Finite (6530219459687219 / 2251799813685248))
      else if s = ''-2.5'' then Some (Finite (- (5 / 2)))
      else if s \<noteq> [] \<and> list_all isDigit s \<and> digitsValue s < 2 ^ 53
        then Some (Finite (of_nat (digitsValue s)))
      else None)"

definition sampleMapper :: ValidatorMapper where
  "sampleMapper = \<lparr>ParseFloat = sampleParseFloat, uint64Unrepresentable = (\<lambda>v. 0)\<rparr>"

text \<open>The six rules with a numeric parameter that \<^verbatim>\<open>strconv.ParseFloat\<close> reads.\<close>

definition boundRule :: "ValidationRule \<Rightarrow> bool" where
  "boundRule rule = (Name rule \<in> set [''min'', ''max'', ''gte'', ''lte'', ''gt'', ''lt''])"

lemma applyRule_malformed:
  assumes "boundRule rule" and "ParseFloat m (Param rule) = None"
  shows "applyRule m isString isNumeric acc rule = acc"
  using assms by (cases acc) (auto simp: applyRule_def boundRule_def)

text \<open>
  Claim C9. A \<^verbatim>\<open>min\<close>, \<^verbatim>\<open>max\<close>, \<^verbatim>\<open>gte\<close>, \<^verbatim>\<open>lte\<close>, \<^verbatim>\<open>gt\<close> or \<^verbatim>\<open>lt\<close> rule whose parameter
  does not parse as a number is skipped: wherever it stands in the rule list, schema and
  required flag come out as if the rule were not there, and on its own it leaves the
  schema as it was. The mapper has no error result.
\<close>

theorem malformed_bound_is_skipped:
  assumes "boundRule rule" and "ParseFloat m (Param rule) = None"
  shows "applyRulesToSchema m schema (before @ rule # after) = applyRulesToSchema m schema (before @ after)
         \<and> applyRulesToSchema m schema [rule] = (schema, False)"
  using assms by (simp add: applyRulesToSchema_def applyRule_malformed Let_def)

lemma sample_abc: "ParseFloat sampleMapper ''abc'' = None"
  by (simp add: sampleMapper_def sampleParseFloat_def isDigit_def)

theorem malformed_bound_is_skipped_witness:
  "boundRule \<lparr>Name = ''min'', Param = ''abc''\<rparr>
   \<and> ParseFloat sampleMapper (Param \<lparr>Name = ''min'', Param = ''abc''\<rparr>) = None
   \<and> applyRulesToSchema sampleMapper (set_Type ''string'' emptySchema)
        [\<lparr>Name = ''required'', Param = []\<rparr>, \<lparr>Name = ''min'', Param = ''abc''\<rparr>, \<lparr>Name = ''email'', Param = []\<rparr>]
       = (set_Format ''email'' (set_Type ''string'' emptySchema), True)"
proof -
  have b: "boundRule \<lparr>Name = ''min'', Param = ''abc''\<rparr>" by (simp add: boundRule_def)
  have p: "ParseFloat sampleMapper (Param \<lparr>Name = ''min'', Param = ''abc''\<rparr>) = None"
    by (simp add: sample_abc)
  have "applyRulesToSchema sampleMapper (set_Type ''string'' emptySchema)
          ([\<lparr>Name = ''required'', Param = []\<rparr>] @ \<lparr>Name = ''min'', Param = ''abc''\<rparr> # [\<lparr>Name = ''email'', Param = []\<rparr>])
        = applyRulesToSchema sampleMapper (set_Type ''string'' emptySchema)
          ([\<lparr>Name = ''required'', Param = []\<rparr>] @ [\<lparr>Name = ''email'', Param = []\<rparr>])"
    using malformed_bound_is_skipped [OF b p] by blast
  then show ?thesis using b p by (simp add: applyRulesToSchema_def applyRule_def)
qed

text \<open>
  Claim C10, amended. On a string-typed schema a \<^verbatim>\<open>min=p\<close> or \<^verbatim>\<open>max=p\<close> rule whose parameter
  parses to a finite value with an integer part from \<open>0\<close> to \<open>2^64 - 1\<close> sets the length
  bound to that integer part (the fraction is cut off) and changes nothing else; on an
  integer- or number-typed schema the rule stores the text of the parameter as it is
  written, whatever number it parses to.
\<close>

theorem fractional_bound_truncated_or_verbatim:
  "(ParseFloat m p = Some (Finite q) \<and> 0 \<le> truncateRat q \<and> truncateRat q < 2 ^ 64 \<and> Type schema = ''string'' \<longrightarrow>
      applyRulesToSchema m schema [\<lparr>Name = ''min'', Param = p\<rparr>]
        = (set_MinLength (Some (nat (truncateRat q))) schema, False)
      \<and> applyRulesToSchema m schema [\<lparr>Name = ''max'', Param = p\<rparr>]
        = (set_MaxLength (Some (nat (truncateRat q))) schema, False))
   \<and> (ParseFloat m p = Some v \<and> (Type schema = ''integer'' \<or> Type schema = ''number'') \<longrightarrow>
      applyRulesToSchema m schema [\<lparr>Name = ''min'', Param = p\<rparr>] = (set_Minimum p schema, False)
      \<and> applyRulesToSchema m schema [\<lparr>Name = ''max'', Param = p\<rparr>] = (set_Maximum p schema, False))"
  by (auto simp: applyRulesToSchema_def applyRule_def toUint64_def)

lemma truncate_sample: "truncateRat (6530219459687219 / 2251799813685248) = 2"
  unfolding truncateRat_def by code_simp

lemma truncate_sample_neg: "truncateRat (- (5 / 2)) = - 2"
  unfolding truncateRat_def by code_simp

lemma sample_2_9: "ParseFloat sampleMapper ''2.9'' = Some (Finite (6530219459687219 / 2251799813685248))"
  by (simp add: sampleMapper_def sampleParseFloat_def)

lemma sample_neg: "ParseFloat sampleMapper ''-2.5'' = Some (Finite (- (5 / 2)))"
  by (simp add: sampleMapper_def sampleParseFloat_def)

theorem fractional_bound_truncated_or_verbatim_witness:
  "ParseFloat sampleMapper ''2.9'' = Some (Finite (6530219459687219 / 2251799813685248))
   \<and> truncateRat (6530219459687219 / 2251799813685248) = 2
   \<and> MinLength (fst (applyRulesToSchema sampleMapper (set_Type ''string'' emptySchema)
        [\<lparr>Name = ''min'', Param = ''2.9''\<rparr>])) = Some 2
   \<and> Minimum (fst (applyRulesToSchema sampleMapper (set_Type ''number'' emptySchema)
        [\<lparr>Name = ''min'', Param = ''2.9''\<rparr>])) = ''2.9''
   \<and> MinLength (fst (applyRulesToSchema sampleMapper (set_Type ''number'' emptySchema)
        [\<lparr>Name = ''min'', Param = ''2.9''\<rparr>])) = None"
  using fractional_bound_truncated_or_verbatim
          [of sampleMapper "''2.9''" "6530219459687219 / 2251799813685248" "set_Type ''string'' emptySchema"]
        fractional_bound_truncated_or_verbatim
          [of sampleMapper "''2.9''" _ "set_Type ''number'' emptySchema" "Finite (6530219459687219 / 2251799813685248)"]
  by (simp add: sample_2_9 truncate_sample)

text \<open>
  Claim C10 as it was stated fails for a negative parameter: \<^verbatim>\<open>min=-2.5\<close> on a string-typed
  schema stores an unsigned length, which is not the integer part \<open>-2\<close> of the parameter.
\<close>

theorem negative_length_bound_counterexample:
  "ParseFloat sampleMapper ''-2.5'' = Some (Finite (- (5 / 2)))
   \<and> truncateRat (- (5 / 2)) = - 2
   \<and> MinLength (fst (applyRulesToSchema sampleMapper (set_Type ''string'' emptySchema)
          [\<lparr>Name = ''min'', Param = ''-2.5''\<rparr>])) \<noteq> None
   \<and> map_option int (MinLength (fst (applyRulesToSchema sampleMapper (set_Type ''string'' emptySchema)
          [\<lparr>Name = ''min'', Param = ''-2.5''\<rparr>]))) \<noteq> Some (- 2)"
  by (simp add: sample_neg applyRulesToSchema_def applyRule_def toUint64_def truncate_sample_neg)

section \<open>The mapper leaves the structure of a schema alone\<close>

lemma set_Items_commute:
  "set_MinLength a (set_Items v s) = set_Items v (set_MinLength a s)"
  "set_MaxLength a (set_Items v s) = set_Items v (set_MaxLength a s)"
  "set_Minimum b (set_Items v s) = set_Items v (set_Minimum b s)"
  "set_Maximum b (set_Items v s) = set_Items v (set_Maximum b s)"
  "set_ExclusiveMinimum b (set_Items v s) = set_Items v (set_ExclusiveMinimum b s)"
  "set_ExclusiveMaximum b (set_Items v s) = set_Items v (set_ExclusiveMaximum b s)"
  "set_Format b (set_Items v s) = set_Items v (set_Format b s)"
  "set_Pattern b (set_Items v s) = set_Items v (set_Pattern b s)"
  "set_Enum c (set_Items v s) = set_Items v (set_Enum c s)"
  "set_ContentEncoding b (set_Items v s) = set_Items v (set_ContentEncoding b s)"
  by (cases s; simp add: set_Items_def set_MinLength_def set_MaxLength_def set_Minimum_def
        set_Maximum_def set_ExclusiveMinimum_def set_ExclusiveMaximum_def set_Format_def
        set_Pattern_def set_Enum_def set_ContentEncoding_def)+

lemma set_Items_twice [simp]: "set_Items a (set_Items b s) = set_Items a s"
  by (cases s) (simp add: set_Items_def)

text \<open>A quantity that none of the mapper's writes changes is not changed by a rule.\<close>

lemma applyRule_preserves:
  assumes "\<And>a x. g (set_MinLength a x) = g x" "\<And>a x. g (set_MaxLength a x) = g x"
    "\<And>a x. g (set_Minimum a x) = g x" "\<And>a x. g (set_Maximum a x) = g x"
    "\<And>a x. g (set_ExclusiveMinimum a x) = g x" "\<And>a x. g (set_ExclusiveMaximum a x) = g x"
    "\<And>a x. g (set_Format a x) = g x" "\<And>a x. g (set_Pattern a x) = g x"
    "\<And>a x. g (set_Enum a x) = g x" "\<And>a x. g (set_ContentEncoding a x) = g x"
  shows "g (fst (applyRule m i n (s, r) rule)) = g s"
  unfolding applyRule_def Let_def prod.case
  by (cases "ParseFloat m (Param rule)"; cases "ParseUint (Param rule)")
     (simp_all only: option.case if_distrib [of "\<lambda>x. g (fst x)"] fst_conv assms if_cancel)

lemma applyRule_required:
  "snd (applyRule m i n (s, r) rule) = (r \<or> Name rule = ''required'')"
  unfolding applyRule_def Let_def prod.case
  by (cases "ParseFloat m (Param rule)"; cases "ParseUint (Param rule)")
     (simp_all only: option.case if_distrib [of snd] snd_conv if_cancel, simp_all)

lemma applyRule_set_Items:
  "applyRule m i n (set_Items v s, r) rule =
     (set_Items v (fst (applyRule m i n (s, r) rule)), snd (applyRule m i n (s, r) rule))"
  unfolding applyRule_def Let_def prod.case
  by (cases "ParseFloat m (Param rule)"; cases "ParseUint (Param rule)")
     (simp_all only: option.case if_distrib [of "\<lambda>x. (set_Items v (fst x), snd x)"] fst_conv snd_conv
        set_Items_commute)

declare BuildFieldSchema.simps [simp del] buildElemSchema.simps [simp del]
  inlineStructSchema.simps [simp del] buildInlineSchema.simps [simp del]

lemma foldl_applyRule_preserves:
  assumes "\<And>a x. g (set_MinLength a x) = g x" "\<And>a x. g (set_MaxLength a x) = g x"
    "\<And>a x. g (set_Minimum a x) = g x" "\<And>a x. g (set_Maximum a x) = g x"
    "\<And>a x. g (set_ExclusiveMinimum a x) = g x" "\<And>a x. g (set_ExclusiveMaximum a x) = g x"
    "\<And>a x. g (set_Format a x) = g x" "\<And>a x. g (set_Pattern a x) = g x"
    "\<And>a x. g (set_Enum a x) = g x" "\<And>a x. g (set_ContentEncoding a x) = g x"
  shows "g (fst (foldl (applyRule m i n) (s, r) rules)) = g s"
proof (induction rules arbitrary: s r)
  case Nil
  then show ?case by simp
next
  case (Cons rule rules)
  obtain s' r' where step: "applyRule m i n (s, r) rule = (s', r')"
    by (cases "applyRule m i n (s, r) rule")
  have "g s' = g s" using applyRule_preserves [of g m i n s r rule, OF assms] step by simp
  with Cons [of s' r'] step show ?case by simp
qed

lemma applyRulesToSchema_preserves:
  assumes "\<And>a x. g (set_MinLength a x) = g x" "\<And>a x. g (set_MaxLength a x) = g x"
    "\<And>a x. g (set_Minimum a x) = g x" "\<And>a x. g (set_Maximum a x) = g x"
    "\<And>a x. g (set_ExclusiveMinimum a x) = g x" "\<And>a x. g (set_ExclusiveMaximum a x) = g x"
    "\<And>a x. g (set_Format a x) = g x" "\<And>a x. g (set_Pattern a x) = g x"
    "\<And>a x. g (set_Enum a x) = g x" "\<And>a x. g (set_ContentEncoding a x) = g x"
  shows "g (fst (applyRulesToSchema m s rules)) = g s"
  unfolding applyRulesToSchema_def Let_def by (rule foldl_applyRule_preserves [OF assms])

lemma applyRulesToSchema_frame:
  "Type (fst (applyRulesToSchema m s rules)) = Type s"
  "Items (fst (applyRulesToSchema m s rules)) = Items s"
  "AdditionalProperties (fst (applyRulesToSchema m s rules)) = AdditionalProperties s"
  "Ref (fst (applyRulesToSchema m s rules)) = Ref s"
  "Properties (fst (applyRulesToSchema m s rules)) = Properties s"
  "Required (fst (applyRulesToSchema m s rules)) = Required s"
  "Description (fst (applyRulesToSchema m s rules)) = Description s"
  "Version (fst (applyRulesToSchema m s rules)) = Version s"
  "ID (fst (applyRulesToSchema m s rules)) = ID s"
  "Title (fst (applyRulesToSchema m s rules)) = Title s"
  by (rule applyRulesToSchema_preserves; simp)+

lemma foldl_applyRule_required:
  "snd (foldl (applyRule m i n) (s, r) rules) = (r \<or> ''required'' \<in> set (map Name rules))"
proof (induction rules arbitrary: s r)
  case Nil
  then show ?case by simp
next
  case (Cons rule rules)
  obtain s' r' where step: "applyRule m i n (s, r) rule = (s', r')"
    by (cases "applyRule m i n (s, r) rule")
  with applyRule_required [of m i n s r rule] have "r' = (r \<or> Name rule = ''required'')" by simp
  with Cons [of s' r'] step show ?case by auto
qed

lemma applyRulesToSchema_required:
  "snd (applyRulesToSchema m s rules) = (''required'' \<in> set (map Name rules))"
  by (simp add: applyRulesToSchema_def Let_def foldl_applyRule_required)

lemma foldl_applyRule_set_Items:
  "foldl (applyRule m i n) (set_Items v s, r) rules =
     (set_Items v (fst (foldl (applyRule m i n) (s, r) rules)),
      snd (foldl (applyRule m i n) (s, r) rules))"
proof (induction rules arbitrary: s r)
  case Nil
  then show ?case by simp
next
  case (Cons rule rules)
  obtain s' r' where step: "applyRule m i n (s, r) rule = (s', r')"
    by (cases "applyRule m i n (s, r) rule")
  then have "applyRule m i n (set_Items v s, r) rule = (set_Items v s', r')"
    by (simp add: applyRule_set_Items [of m i n v s r rule])
  with Cons [of s' r'] step show ?case by simp
qed

lemma applyRulesToSchema_set_Items:
  "applyRulesToSchema m (set_Items v s) rules =
     (set_Items v (fst (applyRulesToSchema m s rules)), snd (applyRulesToSchema m s rules))"
  by (simp add: applyRulesToSchema_def Let_def foldl_applyRule_set_Items)

text \<open>On a schema that is neither string nor numeric, the bound rules write nothing.\<close>

lemma applyRule_untyped_preserves:
  assumes "\<And>a x. g (set_Format a x) = g x" "\<And>a x. g (set_Pattern a x) = g x"
    "\<And>a x. g (set_Enum a x) = g x" "\<And>a x. g (set_ContentEncoding a x) = g x"
  shows "g (fst (applyRule m False False (s, r) rule)) = g s"
  unfolding applyRule_def Let_def prod.case
  by (cases "ParseFloat m (Param rule)"; cases "ParseUint (Param rule)")
     (simp_all only: option.case if_False if_distrib [of "\<lambda>x. g (fst x)"] fst_conv assms if_cancel)

lemma foldl_applyRule_untyped_preserves:
  assumes "\<And>a x. g (set_Format a x) = g x" "\<And>a x. g (set_Pattern a x) = g x"
    "\<And>a x. g (set_Enum a x) = g x" "\<And>a x. g (set_ContentEncoding a x) = g x"
  shows "g (fst (foldl (applyRule m False False) (s, r) rules)) = g s"
proof (induction rules arbitrary: s r)
  case Nil
  then show ?case by simp
next
  case (Cons rule rules)
  obtain s' r' where step: "applyRule m False False (s, r) rule = (s', r')"
    by (cases "applyRule m False False (s, r) rule")
  have "g s' = g s" using applyRule_untyped_preserves [of g m s r rule, OF assms] step by simp
  with Cons [of s' r'] step show ?case by simp
qed

lemma applyRulesToSchema_untyped_bounds:
  assumes "Type s \<noteq> ''string''" "Type s \<noteq> ''integer''" "Type s \<noteq> ''number''"
  shows "Minimum (fst (applyRulesToSchema m s rules)) = Minimum s"
    "Maximum (fst (applyRulesToSchema m s rules)) = Maximum s"
    "ExclusiveMinimum (fst (applyRulesToSchema m s rules)) = ExclusiveMinimum s"
    "ExclusiveMaximum (fst (applyRulesToSchema m s rules)) = ExclusiveMaximum s"
    "MinLength (fst (applyRulesToSchema m s rules)) = MinLength s"
    "MaxLength (fst (applyRulesToSchema m s rules)) = MaxLength s"
  using assms unfolding applyRulesToSchema_def Let_def
  by (simp_all add: foldl_applyRule_untyped_preserves)

section \<open>The schema of a field, case by case\<close>

text \<open>The type override of the \<^verbatim>\<open>schema\<close> tag, empty when there is none.\<close>

definition schemaOverride :: "FieldInfo \<Rightarrow> string" where
  "schemaOverride field =
     (case Tags field ''schema'' of None \<Rightarrow> [] | Some schemaTag \<Rightarrow> parseSchemaTypeOverride schemaTag)"

text \<open>A field whose schema is an array with an items schema: no override, a slice or an
  array, and an element type.\<close>

definition arrayWithItems :: "FieldInfo \<Rightarrow> bool" where
  "arrayWithItems field =
     (schemaOverride field = []
      \<and> (Kind (Underlying (FieldType field)) = TypeKindSlice \<or> Kind (Underlying (FieldType field)) = TypeKindArray)
      \<and> ElemType (Underlying (FieldType field)) \<noteq> None)"

text \<open>A field that is a reference to a struct of the package: exported, no package name.\<close>

definition localStructField :: "FieldInfo \<Rightarrow> bool" where
  "localStructField field =
     (schemaOverride field = []
      \<and> Kind (Underlying (FieldType field)) = TypeKindStruct
      \<and> IsExported (Underlying (FieldType field))
      \<and> PackageName (Underlying (FieldType field)) = [])"

lemma BuildFieldSchema_override:
  "schemaOverride field \<noteq> [] \<Longrightarrow>
     BuildFieldSchema field rt ctx = Inr (withFieldDoc field (set_Type (schemaOverride field) emptySchema), rt)"
  by (simp add: BuildFieldSchema.simps schemaOverride_def Let_def)

lemma BuildFieldSchema_collection:
  assumes "schemaOverride field = []"
    and "Kind (Underlying (FieldType field)) = TypeKindSlice \<or> Kind (Underlying (FieldType field)) = TypeKindArray"
  shows "BuildFieldSchema field rt ctx =
     (case ElemType (Underlying (FieldType field)) of
        None \<Rightarrow> Inr (withFieldDoc field (set_Type ''array'' emptySchema), rt)
      | Some elem \<Rightarrow>
          (case buildElemSchema elem rt ctx of
             Inl err \<Rightarrow> Inl err
           | Inr (elemSchema, rt') \<Rightarrow>
               Inr (withFieldDoc field (set_Items (Some elemSchema) (set_Type ''array'' emptySchema)), rt')))"
  using assms by (auto simp: BuildFieldSchema.simps schemaOverride_def Let_def)

lemma BuildFieldSchema_map:
  assumes "schemaOverride field = []" and "Kind (Underlying (FieldType field)) = TypeKindMap"
  shows "BuildFieldSchema field rt ctx =
     (case ElemType (Underlying (FieldType field)) of
        None \<Rightarrow> Inr (withFieldDoc field (set_Type ''object'' emptySchema), rt)
      | Some elem \<Rightarrow>
          (case buildElemSchema elem rt ctx of
             Inl err \<Rightarrow> Inl err
           | Inr (valueSchema, rt') \<Rightarrow>
               Inr (withFieldDoc field
                      (set_AdditionalProperties (Some valueSchema) (set_Type ''object'' emptySchema)), rt')))"
  using assms by (simp add: BuildFieldSchema.simps schemaOverride_def Let_def)

lemma BuildFieldSchema_plain:
  assumes "schemaOverride field = []"
  shows "Kind (Underlying (FieldType field)) = TypeKindPrimitive \<Longrightarrow>
           BuildFieldSchema field rt ctx =
             Inr (withFieldDoc field (typedSchema (primitiveToSchema (TypeName (Underlying (FieldType field))))), rt)"
    and "Kind (Underlying (FieldType field)) = TypeKindAlias \<Longrightarrow>
           BuildFieldSchema field rt ctx =
             Inr (withFieldDoc field (typedSchema (primitiveToSchema (UnderlyingName (Underlying (FieldType field))))), rt)"
    and "Kind (Underlying (FieldType field)) = TypeKindTime \<Longrightarrow>
           BuildFieldSchema field rt ctx =
             Inr (withFieldDoc field (set_Format ''date-time'' (set_Type ''string'' emptySchema)), rt)"
    and "Kind (Underlying (FieldType field)) = TypeKindDuration \<Longrightarrow>
           BuildFieldSchema field rt ctx =
             Inr (withFieldDoc field (set_Format ''duration'' (set_Type ''string'' emptySchema)), rt)"
    and "Kind (Underlying (FieldType field)) = TypeKindInterface \<Longrightarrow>
           BuildFieldSchema field rt ctx = Inr (withFieldDoc field emptySchema, rt)"
    and "Kind (Underlying (FieldType field)) = TypeKindPointer \<or> Kind (Underlying (FieldType field)) = TypeKindUnknown \<Longrightarrow>
           BuildFieldSchema field rt ctx = Inr (withFieldDoc field (set_Type ''string'' emptySchema), rt)"
  using assms by (auto simp: BuildFieldSchema.simps schemaOverride_def Let_def)

lemma BuildFieldSchema_foreign:
  assumes "schemaOverride field = []" and "Kind (Underlying (FieldType field)) = TypeKindStruct"
    and "\<not> (IsExported (Underlying (FieldType field)) \<and> PackageName (Underlying (FieldType field)) = [])"
  shows "BuildFieldSchema field rt ctx = Inr (withFieldDoc field (set_Type ''object'' emptySchema), rt)"
  using assms by (auto simp: BuildFieldSchema.simps schemaOverride_def Let_def)

text \<open>A reference to a struct of the package, in reference mode: a link when there is a
  tracker, which takes the name; a bare object when there is none.\<close>

lemma BuildFieldSchema_ref:
  assumes "localStructField field" and "\<not> shouldInlineStruct ctx"
  shows "BuildFieldSchema field rt ctx =
     (case rt of
        Some t \<Rightarrow>
          Inr (withFieldDoc field (set_Ref (GetRefPath (TypeName (Underlying (FieldType field)))) emptySchema),
               Some (AddRef (TypeName (Underlying (FieldType field))) t))
      | None \<Rightarrow> Inr (withFieldDoc field (set_Type ''object'' emptySchema), rt))"
  using assms
  by (cases ctx)
     (auto simp: BuildFieldSchema.simps schemaOverride_def localStructField_def Let_def shouldInlineStruct_def
        split: option.splits)

text \<open>The same reference in inline mode: the struct is expanded in place, or is a bare
  object when the struct map does not have it.\<close>

lemma BuildFieldSchema_inline:
  assumes "localStructField field" and "ParentInline c"
  shows "BuildFieldSchema field rt (Some c) =
     (case inlineStructSchema (TypeName (Underlying (FieldType field))) c of
        Inl err \<Rightarrow> Inl err
      | Inr (Some inlinedSchema) \<Rightarrow>
          Inr (withFieldDoc field
                 (set_Description (Description inlinedSchema)
                   (set_Required (Required inlinedSchema)
                     (set_Properties (Properties inlinedSchema)
                       (set_Type (Type inlinedSchema) emptySchema)))), rt)
      | Inr None \<Rightarrow> Inr (withFieldDoc field (set_Type ''object'' emptySchema), rt))"
  using assms
  by (auto simp: BuildFieldSchema.simps schemaOverride_def localStructField_def Let_def shouldInlineStruct_def
        split: option.splits sum.splits)

lemma sel_withFieldDoc [simp]:
  "Version (withFieldDoc f s) = Version s" "ID (withFieldDoc f s) = ID s"
  "Title (withFieldDoc f s) = Title s" "Type (withFieldDoc f s) = Type s"
  "Format (withFieldDoc f s) = Format s" "Pattern (withFieldDoc f s) = Pattern s"
  "Enum (withFieldDoc f s) = Enum s" "Minimum (withFieldDoc f s) = Minimum s"
  "Maximum (withFieldDoc f s) = Maximum s" "ExclusiveMinimum (withFieldDoc f s) = ExclusiveMinimum s"
  "ExclusiveMaximum (withFieldDoc f s) = ExclusiveMaximum s" "MinLength (withFieldDoc f s) = MinLength s"
  "MaxLength (withFieldDoc f s) = MaxLength s" "Items (withFieldDoc f s) = Items s"
  "AdditionalProperties (withFieldDoc f s) = AdditionalProperties s" "Ref (withFieldDoc f s) = Ref s"
  "ContentEncoding (withFieldDoc f s) = ContentEncoding s" "Properties (withFieldDoc f s) = Properties s"
  "Required (withFieldDoc f s) = Required s"
  by (simp_all add: withFieldDoc_def)

lemma sel_typedSchema [simp]:
  "Items (typedSchema tf) = None" "Ref (typedSchema tf) = []"
  "AdditionalProperties (typedSchema tf) = None"
  by (cases tf; simp add: typedSchema_def)+

lemma Type_primitiveToSchema: "Type (typedSchema (primitiveToSchema n)) \<noteq> ''array''"
  by (simp add: typedSchema_def primitiveToSchema_def)

lemma GetRefPath_not_empty [simp]: "GetRefPath n \<noteq> []"
  by (simp add: GetRefPath_def)

text \<open>Every kind of type falls under one of the cases above.\<close>

lemma TypeKind_cases:
  obtains "k = TypeKindPrimitive" | "k = TypeKindAlias" | "k = TypeKindTime" | "k = TypeKindDuration"
  | "k = TypeKindInterface" | "k = TypeKindPointer \<or> k = TypeKindUnknown"
  | "k = TypeKindSlice \<or> k = TypeKindArray" | "k = TypeKindMap" | "k = TypeKindStruct"
  by (cases k) auto

text \<open>The schema of a field has an items schema exactly when the field is an array with an
  element type, and then its type is \<^verbatim>\<open>array\<close>.\<close>

lemma BuildFieldSchema_Items:
  assumes "BuildFieldSchema field rt ctx = Inr (s, rt')"
  shows "(Items s \<noteq> None) = arrayWithItems field \<and> (Items s \<noteq> None \<longrightarrow> Type s = ''array'')"
proof (cases "schemaOverride field = []")
  case False
  with assms show ?thesis by (auto simp: BuildFieldSchema_override arrayWithItems_def)
next
  case ov: True
  show ?thesis
  proof (cases "Kind (Underlying (FieldType field))" rule: TypeKind_cases)
    case 7
    with assms ov show ?thesis
      by (auto simp: BuildFieldSchema_collection arrayWithItems_def split: option.splits sum.splits)
  next
    case 8
    with assms ov show ?thesis
      by (auto simp: BuildFieldSchema_map arrayWithItems_def split: option.splits sum.splits)
  next
    case 9
    show ?thesis
    proof (cases "localStructField field")
      case False
      with 9 ov have "\<not> (IsExported (Underlying (FieldType field)) \<and> PackageName (Underlying (FieldType field)) = [])"
        by (auto simp: localStructField_def)
      with assms ov 9 show ?thesis by (auto simp: BuildFieldSchema_foreign arrayWithItems_def)
    next
      case lsf: True
      show ?thesis
      proof (cases "shouldInlineStruct ctx")
        case False
        with assms lsf 9 show ?thesis
          by (auto simp: BuildFieldSchema_ref arrayWithItems_def split: option.splits)
      next
        case True
        then obtain c where c: "ctx = Some c" "ParentInline c"
          by (auto simp: shouldInlineStruct_def split: option.splits)
        with assms lsf 9 show ?thesis
          by (auto simp: BuildFieldSchema_inline arrayWithItems_def split: option.splits sum.splits)
      qed
    qed
  qed (use assms ov in \<open>auto simp: BuildFieldSchema_plain arrayWithItems_def\<close>)
qed

text \<open>A schema with a link comes from one place: a reference, in reference mode, to a struct
  of the package, recorded by a tracker. It has the link and the description and nothing
  else.\<close>

lemma BuildFieldSchema_Ref:
  assumes "BuildFieldSchema field rt ctx = Inr (s, rt')" and "Ref s \<noteq> []"
  shows "s = withFieldDoc field (set_Ref (GetRefPath (TypeName (Underlying (FieldType field)))) emptySchema)
         \<and> localStructField field \<and> \<not> shouldInlineStruct ctx \<and> rt \<noteq> None"
proof (cases "schemaOverride field = []")
  case False
  with assms show ?thesis by (auto simp: BuildFieldSchema_override)
next
  case ov: True
  show ?thesis
  proof (cases "Kind (Underlying (FieldType field))" rule: TypeKind_cases)
    case 7
    with assms ov show ?thesis
      by (auto simp: BuildFieldSchema_collection split: option.splits sum.splits)
  next
    case 8
    with assms ov show ?thesis
      by (auto simp: BuildFieldSchema_map split: option.splits sum.splits)
  next
    case 9
    show ?thesis
    proof (cases "localStructField field")
      case False
      with 9 ov have "\<not> (IsExported (Underlying (FieldType field)) \<and> PackageName (Underlying (FieldType field)) = [])"
        by (auto simp: localStructField_def)
      with assms ov 9 show ?thesis by (auto simp: BuildFieldSchema_foreign)
    next
      case lsf: True
      show ?thesis
      proof (cases "shouldInlineStruct ctx")
        case False
        with assms lsf 9 show ?thesis
          by (auto simp: BuildFieldSchema_ref split: option.splits)
      next
        case True
        then obtain c where c: "ctx = Some c" "ParentInline c"
          by (auto simp: shouldInlineStruct_def split: option.splits)
        with assms lsf 9 show ?thesis
          by (auto simp: BuildFieldSchema_inline split: option.splits sum.splits)
      qed
    qed
  qed (use assms ov in \<open>auto simp: BuildFieldSchema_plain\<close>)
qed

section \<open>The mapper on the schema of a field\<close>

lemma ApplyValidation_whole:
  assumes "\<not> (Type s = ''array'' \<and> Items s \<noteq> None)"
  shows "ApplyValidation m s field =
     (case Tags field ''validate'' of
        None \<Rightarrow> (s, False)
      | Some tag \<Rightarrow> applyRulesToSchema m s (parseValidateTag tag))"
  using assms by (auto simp: ApplyValidation_def Let_def split: option.splits)

lemma ApplyValidation_no_dive:
  assumes "Tags field ''validate'' = Some tag" and "findDive (parseValidateTag tag) = None"
  shows "ApplyValidation m s field = applyRulesToSchema m s (parseValidateTag tag)"
  using assms by (simp add: ApplyValidation_def Let_def)

lemma ApplyValidation_dive:
  assumes "Tags field ''validate'' = Some tag" and "findDive (parseValidateTag tag) = Some i"
    and "Type s = ''array''" and "Items s = Some items"
  shows "ApplyValidation m s field =
     (set_Items (Some (fst (applyRulesToSchema m items (drop (Suc i) (parseValidateTag tag)))))
        (fst (applyRulesToSchema m s (take i (parseValidateTag tag)))),
      ''required'' \<in> set (map Name (take i (parseValidateTag tag))))"
  using assms
  by (simp add: ApplyValidation_def Let_def applyRulesToSchema_set_Items applyRulesToSchema_required)

section \<open>Element schemas and the tracker\<close>

text \<open>A reference to a struct of the package as element type.\<close>

definition localStructType :: "TypeInfo \<Rightarrow> bool" where
  "localStructType t =
     (Kind (Underlying t) = TypeKindStruct \<and> IsExported (Underlying t) \<and> PackageName (Underlying t) = [])"

lemma buildElemSchema_collection:
  assumes "Kind (Underlying t) = TypeKindSlice \<or> Kind (Underlying t) = TypeKindArray"
  shows "buildElemSchema t rt ctx =
     (case ElemType (Underlying t) of
        None \<Rightarrow> Inr (set_Type ''array'' emptySchema, rt)
      | Some elem \<Rightarrow>
          (case buildElemSchema elem rt ctx of
             Inl err \<Rightarrow> Inl err
           | Inr (items, rt') \<Rightarrow> Inr (set_Items (Some items) (set_Type ''array'' emptySchema), rt')))"
  using assms by (subst buildElemSchema.simps) (auto simp: Let_def)

lemma buildElemSchema_map:
  assumes "Kind (Underlying t) = TypeKindMap"
  shows "buildElemSchema t rt ctx =
     (case ElemType (Underlying t) of
        None \<Rightarrow> Inr (set_Type ''object'' emptySchema, rt)
      | Some elem \<Rightarrow>
          (case buildElemSchema elem rt ctx of
             Inl err \<Rightarrow> Inl err
           | Inr (additionalProps, rt') \<Rightarrow>
               Inr (set_AdditionalProperties (Some additionalProps) (set_Type ''object'' emptySchema), rt')))"
  using assms by (subst buildElemSchema.simps) (auto simp: Let_def)

lemma buildElemSchema_plain:
  shows "Kind (Underlying t) = TypeKindPrimitive \<Longrightarrow>
           buildElemSchema t rt ctx = Inr (typedSchema (primitiveToSchema (TypeName (Underlying t))), rt)"
    and "Kind (Underlying t) = TypeKindAlias \<Longrightarrow>
           buildElemSchema t rt ctx = Inr (typedSchema (primitiveToSchema (UnderlyingName (Underlying t))), rt)"
    and "Kind (Underlying t) = TypeKindTime \<Longrightarrow>
           buildElemSchema t rt ctx = Inr (set_Format ''date-time'' (set_Type ''string'' emptySchema), rt)"
    and "Kind (Underlying t) = TypeKindDuration \<Longrightarrow>
           buildElemSchema t rt ctx = Inr (set_Format ''duration'' (set_Type ''string'' emptySchema), rt)"
    and "Kind (Underlying t) = TypeKindInterface \<or> Kind (Underlying t) = TypeKindPointer
           \<or> Kind (Underlying t) = TypeKindUnknown \<Longrightarrow>
           buildElemSchema t rt ctx = Inr (emptySchema, rt)"
  by (auto simp: buildElemSchema.simps Let_def)

lemma buildElemSchema_foreign:
  assumes "Kind (Underlying t) = TypeKindStruct" and "\<not> localStructType t"
  shows "buildElemSchema t rt ctx = Inr (set_Type ''object'' emptySchema, rt)"
  using assms by (auto simp: buildElemSchema.simps Let_def localStructType_def)

lemma buildElemSchema_ref:
  assumes "localStructType t" and "\<not> shouldInlineStruct ctx"
  shows "buildElemSchema t rt ctx =
     (case rt of
        Some tr \<Rightarrow> Inr (set_Ref (GetRefPath (TypeName (Underlying t))) emptySchema,
                        Some (AddRef (TypeName (Underlying t)) tr))
      | None \<Rightarrow> Inr (set_Type ''object'' emptySchema, rt))"
  using assms
  by (cases ctx)
     (auto simp: buildElemSchema.simps localStructType_def Let_def shouldInlineStruct_def
        split: option.splits)

lemma buildElemSchema_inline:
  assumes "localStructType t" and "ParentInline c"
  shows "buildElemSchema t rt (Some c) =
     (case inlineStructSchema (TypeName (Underlying t)) c of
        Inl err \<Rightarrow> Inl err
      | Inr (Some inlinedSchema) \<Rightarrow> Inr (inlinedSchema, rt)
      | Inr None \<Rightarrow> Inr (set_Type ''object'' emptySchema, rt))"
  using assms
  by (auto simp: buildElemSchema.simps localStructType_def Let_def shouldInlineStruct_def
        split: option.splits sum.splits)

text \<open>
  What a tracker is used for. The names a derivation records do not depend on what the
  tracker held before, and the schema does not depend on the tracker at all: run with
  another tracker, the same derivation gives the same schema (or the same error) and adds
  the same names.
\<close>

definition addRefs :: "string list \<Rightarrow> RefTracker \<Rightarrow> RefTracker" where
  "addRefs names t = foldl (\<lambda>t n. AddRef n t) t names"

lemma addRefs_Nil [simp]: "addRefs [] t = t"
  by (simp add: addRefs_def)

lemma addRefs_append [simp]: "addRefs (xs @ ys) t = addRefs ys (addRefs xs t)"
  by (simp add: addRefs_def)

lemma addRefs_single [simp]: "addRefs [n] t = AddRef n t"
  by (simp add: addRefs_def)

definition trackerIndependent ::
  "(RefTracker option \<Rightarrow> error + ('a \<times> RefTracker option)) \<Rightarrow> bool" where
  "trackerIndependent run =
     ((\<exists>err. \<forall>t. run (Some t) = Inl err)
      \<or> (\<exists>x names. \<forall>t. run (Some t) = Inr (x, Some (addRefs names t))))"

lemma trackerIndependent_error: "(\<And>t. run (Some t) = Inl err) \<Longrightarrow> trackerIndependent run"
  by (auto simp: trackerIndependent_def)

lemma trackerIndependent_result:
  "(\<And>t. run (Some t) = Inr (x, Some (addRefs names t))) \<Longrightarrow> trackerIndependent run"
  unfolding trackerIndependent_def by blast

lemma trackerIndependent_const: "(\<And>rt. run rt = Inr (x, rt)) \<Longrightarrow> trackerIndependent run"
  by (rule trackerIndependent_result [where names = "[]"]) simp

lemma trackerIndependent_wrap:
  assumes "trackerIndependent run"
  shows "trackerIndependent (\<lambda>rt. case run rt of Inl err \<Rightarrow> Inl err | Inr (x, rt') \<Rightarrow> Inr (h x, rt'))"
  using assms unfolding trackerIndependent_def
proof (elim disjE exE)
  fix err assume "\<forall>t. run (Some t) = Inl err"
  then show "(\<exists>err. \<forall>t. (case run (Some t) of Inl err \<Rightarrow> Inl err | Inr (x, rt') \<Rightarrow> Inr (h x, rt')) = Inl err)
      \<or> (\<exists>x names. \<forall>t. (case run (Some t) of Inl err \<Rightarrow> Inl err | Inr (x, rt') \<Rightarrow> Inr (h x, rt'))
            = Inr (x, Some (addRefs names t)))"
    by auto
next
  fix x names assume "\<forall>t. run (Some t) = Inr (x, Some (addRefs names t))"
  then have "\<forall>t. (case run (Some t) of Inl err \<Rightarrow> Inl err | Inr (x, rt') \<Rightarrow> Inr (h x, rt'))
            = Inr (h x, Some (addRefs names t))" by simp
  then show "(\<exists>err. \<forall>t. (case run (Some t) of Inl err \<Rightarrow> Inl err | Inr (x, rt') \<Rightarrow> Inr (h x, rt')) = Inl err)
      \<or> (\<exists>x names. \<forall>t. (case run (Some t) of Inl err \<Rightarrow> Inl err | Inr (x, rt') \<Rightarrow> Inr (h x, rt'))
            = Inr (x, Some (addRefs names t)))"
    by blast
qed

lemma buildElemSchema_trackerIndependent: "trackerIndependent (\<lambda>rt. buildElemSchema t rt ctx)"
proof (induction t rule: measure_induct_rule [where f = size])
  case (less t)
  show ?case
  proof (cases "Kind (Underlying t)" rule: TypeKind_cases)
    case 7
    show ?thesis
    proof (cases "ElemType (Underlying t)")
      case None
      with 7 show ?thesis
        by (intro trackerIndependent_const) (simp add: buildElemSchema_collection)
    next
      case (Some elem)
      then have "size elem < size t" by (rule size_ElemType_Underlying)
      then have "trackerIndependent (\<lambda>rt. buildElemSchema elem rt ctx)" by (rule less.IH)
      then have "trackerIndependent (\<lambda>rt. case buildElemSchema elem rt ctx of Inl err \<Rightarrow> Inl err
          | Inr (x, rt') \<Rightarrow> Inr (set_Items (Some x) (set_Type ''array'' emptySchema), rt'))"
        by (rule trackerIndependent_wrap)
      with 7 Some show ?thesis by (simp add: buildElemSchema_collection)
    qed
  next
    case 8
    show ?thesis
    proof (cases "ElemType (Underlying t)")
      case None
      with 8 show ?thesis
        by (intro trackerIndependent_const) (simp add: buildElemSchema_map)
    next
      case (Some elem)
      then have "size elem < size t" by (rule size_ElemType_Underlying)
      then have "trackerIndependent (\<lambda>rt. buildElemSchema elem rt ctx)" by (rule less.IH)
      then have "trackerIndependent (\<lambda>rt. case buildElemSchema elem rt ctx of Inl err \<Rightarrow> Inl err
          | Inr (x, rt') \<Rightarrow> Inr (set_AdditionalProperties (Some x) (set_Type ''object'' emptySchema), rt'))"
        by (rule trackerIndependent_wrap)
      with 8 Some show ?thesis by (simp add: buildElemSchema_map)
    qed
  next
    case 9
    show ?thesis
    proof (cases "localStructType t")
      case False
      with 9 show ?thesis
        by (intro trackerIndependent_const) (simp add: buildElemSchema_foreign)
    next
      case lst: True
      show ?thesis
      proof (cases "shouldInlineStruct ctx")
        case False
        with lst show ?thesis
          by (intro trackerIndependent_result [where names = "[TypeName (Underlying t)]"])
             (simp add: buildElemSchema_ref)
      next
        case True
        then obtain c where c: "ctx = Some c" "ParentInline c"
          by (auto simp: shouldInlineStruct_def split: option.splits)
        show ?thesis
        proof (cases "inlineStructSchema (TypeName (Underlying t)) c")
          case (Inl err)
          with lst c show ?thesis
            by (intro trackerIndependent_error [where err = err]) (simp add: buildElemSchema_inline)
        next
          case (Inr r)
          show ?thesis
          proof (cases r)
            case None
            with Inr lst c show ?thesis
              by (intro trackerIndependent_const) (simp add: buildElemSchema_inline)
          next
            case (Some x)
            with Inr lst c show ?thesis
              by (intro trackerIndependent_const) (simp add: buildElemSchema_inline)
          qed
        qed
      qed
    qed
  qed (intro trackerIndependent_const, simp add: buildElemSchema_plain)+
qed

lemma BuildFieldSchema_trackerIndependent: "trackerIndependent (\<lambda>rt. BuildFieldSchema field rt ctx)"
proof (cases "schemaOverride field = []")
  case False
  then show ?thesis by (intro trackerIndependent_const) (simp add: BuildFieldSchema_override)
next
  case ov: True
  show ?thesis
  proof (cases "Kind (Underlying (FieldType field))" rule: TypeKind_cases)
    case 7
    show ?thesis
    proof (cases "ElemType (Underlying (FieldType field))")
      case None
      with 7 ov show ?thesis
        by (intro trackerIndependent_const) (simp add: BuildFieldSchema_collection)
    next
      case (Some elem)
      have "trackerIndependent (\<lambda>rt. case buildElemSchema elem rt ctx of Inl err \<Rightarrow> Inl err
          | Inr (x, rt') \<Rightarrow> Inr (withFieldDoc field (set_Items (Some x) (set_Type ''array'' emptySchema)), rt'))"
        by (rule trackerIndependent_wrap) (rule buildElemSchema_trackerIndependent)
      with 7 ov Some show ?thesis by (simp add: BuildFieldSchema_collection)
    qed
  next
    case 8
    show ?thesis
    proof (cases "ElemType (Underlying (FieldType field))")
      case None
      with 8 ov show ?thesis
        by (intro trackerIndependent_const) (simp add: BuildFieldSchema_map)
    next
      case (Some elem)
      have "trackerIndependent (\<lambda>rt. case buildElemSchema elem rt ctx of Inl err \<Rightarrow> Inl err
          | Inr (x, rt') \<Rightarrow> Inr (withFieldDoc field
              (set_AdditionalProperties (Some x) (set_Type ''object'' emptySchema)), rt'))"
        by (rule trackerIndependent_wrap) (rule buildElemSchema_trackerIndependent)
      with 8 ov Some show ?thesis by (simp add: BuildFieldSchema_map)
    qed
  next
    case 9
    show ?thesis
    proof (cases "localStructField field")
      case False
      with 9 ov have "\<not> (IsExported (Underlying (FieldType field)) \<and> PackageName (Underlying (FieldType field)) = [])"
        by (auto simp: localStructField_def)
      with 9 ov show ?thesis
        by (intro trackerIndependent_const) (simp add: BuildFieldSchema_foreign)
    next
      case lsf: True
      show ?thesis
      proof (cases "shouldInlineStruct ctx")
        case False
        with lsf show ?thesis
          by (intro trackerIndependent_result [where names = "[TypeName (Underlying (FieldType field))]"])
             (simp add: BuildFieldSchema_ref)
      next
        case True
        then obtain c where c: "ctx = Some c" "ParentInline c"
          by (auto simp: shouldInlineStruct_def split: option.splits)
        show ?thesis
        proof (cases "inlineStructSchema (TypeName (Underlying (FieldType field))) c")
          case (Inl err)
          with lsf c show ?thesis
            by (intro trackerIndependent_error [where err = err]) (simp add: BuildFieldSchema_inline)
        next
          case (Inr r)
          show ?thesis
          proof (cases r)
            case None
            with Inr lsf c show ?thesis
              by (intro trackerIndependent_const) (simp add: BuildFieldSchema_inline)
          next
            case (Some x)
            with Inr lsf c show ?thesis
              by (intro trackerIndependent_const) (simp add: BuildFieldSchema_inline)
          qed
        qed
      qed
    qed
  qed (intro trackerIndependent_const, simp add: BuildFieldSchema_plain ov)+
qed

section \<open>Documents\<close>

text \<open>The rules that apply to the schema of the field itself: all of them, or those before
  the first \<^verbatim>\<open>dive\<close> when the field is an array with an items schema.\<close>

definition effectiveRules :: "FieldInfo \<Rightarrow> ValidationRule list" where
  "effectiveRules field =
     (case Tags field ''validate'' of
        None \<Rightarrow> []
      | Some tag \<Rightarrow>
          (case findDive (parseValidateTag tag) of
             Some i \<Rightarrow> if arrayWithItems field then take i (parseValidateTag tag) else parseValidateTag tag
           | None \<Rightarrow> parseValidateTag tag))"

definition requiredField :: "FieldInfo \<Rightarrow> bool" where
  "requiredField field = (''required'' \<in> set (map Name (effectiveRules field)) \<and> \<not> OmitEmpty field)"

lemma ApplyValidation_required:
  assumes "BuildFieldSchema field rt ctx = Inr (s, rt')"
  shows "snd (ApplyValidation m s field) = (''required'' \<in> set (map Name (effectiveRules field)))"
proof (cases "Tags field ''validate''")
  case None
  then show ?thesis by (simp add: ApplyValidation_def effectiveRules_def)
next
  case (Some tag)
  from BuildFieldSchema_Items [OF assms]
  have items: "(Items s \<noteq> None) = arrayWithItems field" "Items s \<noteq> None \<Longrightarrow> Type s = ''array''"
    by auto
  show ?thesis
  proof (cases "findDive (parseValidateTag tag)")
    case None
    with Some show ?thesis
      by (simp add: ApplyValidation_no_dive effectiveRules_def applyRulesToSchema_required)
  next
    case (Some i)
    show ?thesis
    proof (cases "arrayWithItems field")
      case True
      with items obtain it where "Items s = Some it" "Type s = ''array''" by auto
      with True Some \<open>Tags field ''validate'' = Some tag\<close> show ?thesis
        by (simp add: ApplyValidation_dive effectiveRules_def)
    next
      case False
      with items have "\<not> (Type s = ''array'' \<and> Items s \<noteq> None)" by simp
      with False Some \<open>Tags field ''validate'' = Some tag\<close> show ?thesis
        by (simp add: ApplyValidation_whole effectiveRules_def applyRulesToSchema_required)
    qed
  qed
qed

lemma buildSchemaFields_Required:
  assumes "buildSchemaFields b fs rt ctx props req = Inr (props', req', rt')"
  shows "req' = req @ map PropertyName (filter requiredField fs)"
  using assms
proof (induction fs arbitrary: rt props req)
  case Nil
  then show ?case by simp
next
  case (Cons f fs)
  from Cons.prems obtain s rt1 where bf: "BuildFieldSchema f rt ctx = Inr (s, rt1)"
    by (auto split: sum.splits)
  obtain s' isReq where av: "ApplyValidation (mapper b) s f = (s', isReq)"
    by (cases "ApplyValidation (mapper b) s f")
  from ApplyValidation_required [OF bf, of "mapper b"] av
  have isReq: "isReq = (''required'' \<in> set (map Name (effectiveRules f)))" by simp
  from Cons.prems bf av
  have rest: "buildSchemaFields b fs rt1 ctx (PropertiesSet (PropertyName f) s' props)
        (if isReq \<and> \<not> OmitEmpty f then req @ [PropertyName f] else req) = Inr (props', req', rt')"
    by simp
  from Cons.IH [OF rest] isReq show ?case by (simp add: requiredField_def)
qed

lemma BuildSchema_Required:
  assumes "BuildSchema b si rt = Inr (doc, rt')"
  shows "Required doc = map PropertyName (filter requiredField (StructFields si))"
proof -
  let ?ctx = "case structMap b of None \<Rightarrow> None
     | Some sm \<Rightarrow> Some \<lparr>Enabled = False, ParentInline = Inline si, StructMap = sm,
          InProgress = {StructName si}, CtxBuilder = b\<rparr>"
  from assms obtain props req where
    bf: "buildSchemaFields b (StructFields si) rt ?ctx [] [] = Inr (props, req, rt')"
    unfolding BuildSchema_def Let_def by (auto split: sum.splits)
  from buildSchemaFields_Required [OF bf]
  have req: "req = map PropertyName (filter requiredField (StructFields si))" by simp
  from assms bf have "Required doc = req"
    unfolding BuildSchema_def Let_def by (auto split: if_splits)
  with req show ?thesis by simp
qed

lemma map_of_PropertiesSet: "map_of (PropertiesSet k v ps) = (map_of ps)(k \<mapsto> v)"
  by (induction ps) (auto simp: fun_eq_iff)

lemma buildSchemaFields_other:
  assumes "buildSchemaFields b fs rt ctx props req = Inr (props', req', rt')"
    and "k \<notin> PropertyName ` set fs"
  shows "map_of props' k = map_of props k"
  using assms
proof (induction fs arbitrary: rt props req)
  case Nil
  then show ?case by simp
next
  case (Cons f fs)
  from Cons.prems(1) obtain s rt1 where bf: "BuildFieldSchema f rt ctx = Inr (s, rt1)"
    by (auto split: sum.splits)
  obtain s' isReq where av: "ApplyValidation (mapper b) s f = (s', isReq)"
    by (cases "ApplyValidation (mapper b) s f")
  from Cons.prems(1) bf av
  have rest: "buildSchemaFields b fs rt1 ctx (PropertiesSet (PropertyName f) s' props)
        (if isReq \<and> \<not> OmitEmpty f then req @ [PropertyName f] else req) = Inr (props', req', rt')"
    by simp
  from Cons.prems(2) have "k \<notin> PropertyName ` set fs" "k \<noteq> PropertyName f" by auto
  with Cons.IH [OF rest] show ?case by (simp add: map_of_PropertiesSet)
qed

text \<open>With distinct property names, the property of a field is the schema of that field
  after the mapper.\<close>

lemma buildSchemaFields_lookup:
  assumes "buildSchemaFields b fs rt ctx props req = Inr (props', req', rt')"
    and "f \<in> set fs" and "distinct (map PropertyName fs)"
  shows "\<exists>s t0 t1. BuildFieldSchema f t0 ctx = Inr (s, t1)
           \<and> map_of props' (PropertyName f) = Some (fst (ApplyValidation (mapper b) s f))"
  using assms
proof (induction fs arbitrary: rt props req)
  case Nil
  then show ?case by simp
next
  case (Cons g fs)
  from Cons.prems(1) obtain s rt1 where bf: "BuildFieldSchema g rt ctx = Inr (s, rt1)"
    by (auto split: sum.splits)
  obtain s' isReq where av: "ApplyValidation (mapper b) s g = (s', isReq)"
    by (cases "ApplyValidation (mapper b) s g")
  from Cons.prems(1) bf av
  have rest: "buildSchemaFields b fs rt1 ctx (PropertiesSet (PropertyName g) s' props)
        (if isReq \<and> \<not> OmitEmpty g then req @ [PropertyName g] else req) = Inr (props', req', rt')"
    by simp
  show ?case
  proof (cases "f = g")
    case True
    from Cons.prems(3) have "PropertyName g \<notin> PropertyName ` set fs" by auto
    from buildSchemaFields_other [OF rest this]
    have "map_of props' (PropertyName g) = Some s'" by (simp add: map_of_PropertiesSet)
    with True bf av show ?thesis by (metis fst_conv)
  next
    case False
    with Cons.prems have "f \<in> set fs" "distinct (map PropertyName fs)" by auto
    from Cons.IH [OF rest this] show ?thesis .
  qed
qed

lemma BuildSchema_lookup:
  assumes "BuildSchema b si rt = Inr (doc, rt')"
    and "f \<in> set (StructFields si)" and "distinct (map PropertyName (StructFields si))"
  shows "\<exists>props s t0 t1 ctx. Properties doc = Some props \<and> BuildFieldSchema f t0 ctx = Inr (s, t1)
           \<and> map_of props (PropertyName f) = Some (fst (ApplyValidation (mapper b) s f))"
proof -
  let ?ctx = "case structMap b of None \<Rightarrow> None
     | Some sm \<Rightarrow> Some \<lparr>Enabled = False, ParentInline = Inline si, StructMap = sm,
          InProgress = {StructName si}, CtxBuilder = b\<rparr>"
  from assms(1) obtain props req where
    bf: "buildSchemaFields b (StructFields si) rt ?ctx [] [] = Inr (props, req, rt')"
    unfolding BuildSchema_def Let_def by (auto split: sum.splits)
  from assms(1) bf have "Properties doc = Some props"
    unfolding BuildSchema_def Let_def by (auto split: if_splits)
  with buildSchemaFields_lookup [OF bf assms(2,3)] show ?thesis by blast
qed

text \<open>The derivation of a document with one tracker and with another.\<close>

lemma buildSchemaFields_trackers:
  "(\<exists>err. \<forall>t. buildSchemaFields b fs (Some t) ctx props req = Inl err)
   \<or> (\<exists>p r names. \<forall>t. buildSchemaFields b fs (Some t) ctx props req = Inr (p, r, Some (addRefs names t)))"
proof (induction fs arbitrary: props req)
  case Nil
  have "\<forall>t. buildSchemaFields b [] (Some t) ctx props req = Inr (props, req, Some (addRefs [] t))"
    by simp
  then show ?case by blast
next
  case (Cons f fs)
  from BuildFieldSchema_trackerIndependent [of f ctx]
  consider err where "\<forall>t. BuildFieldSchema f (Some t) ctx = Inl err"
    | s ns where "\<forall>t. BuildFieldSchema f (Some t) ctx = Inr (s, Some (addRefs ns t))"
    unfolding trackerIndependent_def by blast
  then show ?case
  proof cases
    case 1
    then have "\<forall>t. buildSchemaFields b (f # fs) (Some t) ctx props req = Inl err" by simp
    then show ?thesis by blast
  next
    case 2
    obtain s' isReq where av: "ApplyValidation (mapper b) s f = (s', isReq)"
      by (cases "ApplyValidation (mapper b) s f")
    let ?props = "PropertiesSet (PropertyName f) s' props"
    let ?req = "if isReq \<and> \<not> OmitEmpty f then req @ [PropertyName f] else req"
    have step: "\<forall>t. buildSchemaFields b (f # fs) (Some t) ctx props req
          = buildSchemaFields b fs (Some (addRefs ns t)) ctx ?props ?req"
      using 2 av by simp
    from Cons [of ?props ?req]
    consider err where "\<forall>t. buildSchemaFields b fs (Some t) ctx ?props ?req = Inl err"
      | p r ns' where "\<forall>t. buildSchemaFields b fs (Some t) ctx ?props ?req = Inr (p, r, Some (addRefs ns' t))"
      by blast
    then show ?thesis
    proof cases
      case 1
      with step have "\<forall>t. buildSchemaFields b (f # fs) (Some t) ctx props req = Inl err" by simp
      then show ?thesis by blast
    next
      case 2
      with step have "\<forall>t. buildSchemaFields b (f # fs) (Some t) ctx props req
          = Inr (p, r, Some (addRefs (ns @ ns') t))" by simp
      then show ?thesis by blast
    qed
  qed
qed

lemma BuildSchema_trackers:
  "(\<exists>err. \<forall>t. BuildSchema b si (Some t) = Inl err)
   \<or> (\<exists>doc names. \<forall>t. BuildSchema b si (Some t) = Inr (doc, Some (addRefs names t)))"
proof -
  let ?ctx = "case structMap b of None \<Rightarrow> None
     | Some sm \<Rightarrow> Some \<lparr>Enabled = False, ParentInline = Inline si, StructMap = sm,
          InProgress = {StructName si}, CtxBuilder = b\<rparr>"
  from buildSchemaFields_trackers [of b "StructFields si" ?ctx "[]" "[]"]
  consider err where "\<forall>t. buildSchemaFields b (StructFields si) (Some t) ?ctx [] [] = Inl err"
    | p r ns where "\<forall>t. buildSchemaFields b (StructFields si) (Some t) ?ctx [] [] = Inr (p, r, Some (addRefs ns t))"
    by blast
  then show ?thesis
  proof cases
    case 1
    then have "\<forall>t. BuildSchema b si (Some t) = Inl err"
      unfolding BuildSchema_def Let_def by simp
    then show ?thesis by blast
  next
    case 2
    then have "\<exists>doc. \<forall>t. BuildSchema b si (Some t) = Inr (doc, Some (addRefs ns t))"
      unfolding BuildSchema_def Let_def by simp
    then show ?thesis by blast
  qed
qed

lemma AddRef_member: "n \<in> set (refs t) \<Longrightarrow> AddRef n t = t"
  by (simp add: AddRef_def)

lemma refs_AddRef: "set (refs (AddRef n t)) = insert n (set (refs t))"
  by (auto simp: AddRef_def)

lemma refs_addRefs: "set (refs (addRefs ns t)) = set ns \<union> set (refs t)"
  by (induction ns arbitrary: t) (auto simp: addRefs_def refs_AddRef)

lemma addRefs_known: "set ns \<subseteq> set (refs t) \<Longrightarrow> addRefs ns t = t"
  by (induction ns arbitrary: t) (auto simp: addRefs_def AddRef_member)

lemma addRefs_twice: "addRefs ns (addRefs ns t) = addRefs ns t"
  by (rule addRefs_known) (simp add: refs_addRefs)

section \<open>Sample records\<close>

definition stringType :: TypeInfo where
  "stringType = TypeInfo TypeKindPrimitive ''string'' [] [] False None None False TypeKindPrimitive []"

definition sliceOf :: "TypeInfo \<Rightarrow> TypeInfo" where
  "sliceOf t = TypeInfo TypeKindSlice (''[]'' @ TypeName t) [] [] False (Some t) None False TypeKindPrimitive []"

definition structType :: "string \<Rightarrow> TypeInfo" where
  "structType name = TypeInfo TypeKindStruct name [] [] False None None True TypeKindPrimitive []"

definition sampleField :: "string \<Rightarrow> string \<Rightarrow> TypeInfo \<Rightarrow> (string \<rightharpoonup> string) \<Rightarrow> FieldInfo" where
  "sampleField name prop ty tags =
     \<lparr>FieldName = name, PropertyName = prop, FieldType = ty, Tags = tags, FieldDoc = [],
      IsEmbedded = False, OmitEmpty = False\<rparr>"

definition sampleStruct :: "string \<Rightarrow> FieldInfo list \<Rightarrow> bool \<Rightarrow> StructInfo" where
  "sampleStruct name fs inl =
     \<lparr>StructName = name, Package = ''models'', StructPackagePath = [], StructFields = fs,
      StructDoc = [], FilePath = ''models.go'', Inline = inl\<rparr>"

definition sampleBuilder :: Builder where
  "sampleBuilder = NewBuilder sampleMapper []"

lemmas sample_defs = stringType_def sliceOf_def structType_def sampleField_def sampleStruct_def
  sampleBuilder_def NewBuilder_def

text \<open>The field \<^verbatim>\<open>Address Address `json:"address" validate:"email"`\<close>.\<close>

definition addressField :: FieldInfo where
  "addressField = sampleField ''Address'' ''address'' (structType ''Address'') [''validate'' \<mapsto> ''email'']"

lemma GetRefPath_Address: "GetRefPath ''Address'' = ''address.schema.json''"
  by code_simp

lemma addressField_schema:
  "BuildFieldSchema addressField (Some NewRefTracker) None =
     Inr (set_Ref ''address.schema.json'' emptySchema, Some (AddRef ''Address'' NewRefTracker))"
  by (simp add: addressField_def sample_defs BuildFieldSchema.simps Let_def withFieldDoc_def
        GetRefPath_Address shouldInlineStruct_def)

lemma parse_email: "parseValidateTag ''email'' = [\<lparr>Name = ''email'', Param = []\<rparr>]"
  by (simp add: parseValidateTag_def splitValidateTag_def TrimSpace_def isSpace_def Let_def)

text \<open>
  Claim C2 as it was stated fails for a format rule: the field
  \<^verbatim>\<open>Address Address `validate:"email"`\<close> of a record in reference mode has a property schema
  with the link and the format \<^verbatim>\<open>email\<close>.
\<close>

theorem linked_property_with_format_counterexample:
  "BuildFieldSchema addressField (Some NewRefTracker) None =
     Inr (set_Ref ''address.schema.json'' emptySchema, Some (AddRef ''Address'' NewRefTracker))
   \<and> Ref (fst (ApplyValidation sampleMapper (set_Ref ''address.schema.json'' emptySchema) addressField))
       = ''address.schema.json''
   \<and> Format (fst (ApplyValidation sampleMapper (set_Ref ''address.schema.json'' emptySchema) addressField))
       = ''email''"
proof -
  have tag: "Tags addressField ''validate'' = Some ''email''"
    by (simp add: addressField_def sampleField_def)
  have "ApplyValidation sampleMapper (set_Ref ''address.schema.json'' emptySchema) addressField
        = applyRulesToSchema sampleMapper (set_Ref ''address.schema.json'' emptySchema) [\<lparr>Name = ''email'', Param = []\<rparr>]"
    using tag by (simp add: ApplyValidation_whole parse_email)
  then show ?thesis
    by (simp add: addressField_schema applyRulesToSchema_def applyRule_def)
qed

text \<open>
  Claim C2, amended. A property schema with a link has, whatever the rule string of the
  field says, no type, no items, no additionalProperties, no properties and no numeric or
  length bound, also after the validation mapper; as the field's type gives it, before
  the mapper, it has no format, pattern, enumeration or content encoding either, and
  without a rule string the mapper leaves it as it is. (Format, pattern, enumeration and
  content-encoding rules of the rule string are written to a schema with a link as to
  any other.)
\<close>

theorem linked_property_structure:
  assumes "BuildFieldSchema field rt ctx = Inr (s, rt')" and "Ref s \<noteq> []"
  shows "Ref (fst (ApplyValidation m s field)) = Ref s
       \<and> Type (fst (ApplyValidation m s field)) = []
       \<and> Items (fst (ApplyValidation m s field)) = None
       \<and> AdditionalProperties (fst (ApplyValidation m s field)) = None
       \<and> Properties (fst (ApplyValidation m s field)) = None
       \<and> Minimum (fst (ApplyValidation m s field)) = []
       \<and> Maximum (fst (ApplyValidation m s field)) = []
       \<and> ExclusiveMinimum (fst (ApplyValidation m s field)) = []
       \<and> ExclusiveMaximum (fst (ApplyValidation m s field)) = []
       \<and> MinLength (fst (ApplyValidation m s field)) = None
       \<and> MaxLength (fst (ApplyValidation m s field)) = None
       \<and> Format s = [] \<and> Pattern s = [] \<and> Enum s = [] \<and> ContentEncoding s = []
       \<and> (Tags field ''validate'' = None \<longrightarrow> ApplyValidation m s field = (s, False))"
proof -
  from BuildFieldSchema_Ref [OF assms]
  have s: "s = withFieldDoc field (set_Ref (GetRefPath (TypeName (Underlying (FieldType field)))) emptySchema)"
    by simp
  then have shape: "Type s = []" "Items s = None" "AdditionalProperties s = None" "Properties s = None"
    "Minimum s = []" "Maximum s = []" "ExclusiveMinimum s = []" "ExclusiveMaximum s = []"
    "MinLength s = None" "MaxLength s = None" "Format s = []" "Pattern s = []" "Enum s = []"
    "ContentEncoding s = []"
    by simp_all
  then have whole: "ApplyValidation m s field =
     (case Tags field ''validate'' of None \<Rightarrow> (s, False)
      | Some tag \<Rightarrow> applyRulesToSchema m s (parseValidateTag tag))"
    by (intro ApplyValidation_whole) simp
  show ?thesis
  proof (cases "Tags field ''validate''")
    case None
    with whole shape show ?thesis by simp
  next
    case (Some tag)
    with whole have av: "ApplyValidation m s field = applyRulesToSchema m s (parseValidateTag tag)"
      by simp
    have untyped: "Type s \<noteq> ''string''" "Type s \<noteq> ''integer''" "Type s \<noteq> ''number''"
      using shape by simp_all
    show ?thesis
      unfolding av using Some shape
      by (simp add: applyRulesToSchema_frame applyRulesToSchema_untyped_bounds [OF untyped])
  qed
qed

theorem linked_property_structure_witness:
  "Ref (set_Ref ''address.schema.json'' emptySchema) \<noteq> []
   \<and> Type (fst (ApplyValidation sampleMapper (set_Ref ''address.schema.json'' emptySchema) addressField)) = []
   \<and> Items (fst (ApplyValidation sampleMapper (set_Ref ''address.schema.json'' emptySchema) addressField)) = None
   \<and> MinLength (fst (ApplyValidation sampleMapper (set_Ref ''address.schema.json'' emptySchema) addressField)) = None"
proof -
  have r: "Ref (set_Ref ''address.schema.json'' emptySchema) \<noteq> []" by simp
  from linked_property_structure [OF addressField_schema r, of sampleMapper] r
  show ?thesis by simp
qed

section \<open>Dive\<close>

text \<open>A slice of strings without a type override.\<close>

definition stringSliceField :: "FieldInfo \<Rightarrow> bool" where
  "stringSliceField field =
     (schemaOverride field = []
      \<and> Kind (Underlying (FieldType field)) = TypeKindSlice
      \<and> (\<exists>elem. ElemType (Underlying (FieldType field)) = Some elem
            \<and> Kind (Underlying elem) = TypeKindPrimitive \<and> TypeName (Underlying elem) = ''string''))"

lemma stringSliceField_schema:
  assumes "stringSliceField field"
  shows "BuildFieldSchema field rt ctx =
     Inr (withFieldDoc field (set_Items (Some (set_Type ''string'' emptySchema)) (set_Type ''array'' emptySchema)), rt)"
proof -
  from assms obtain elem where e: "schemaOverride field = []"
    "Kind (Underlying (FieldType field)) = TypeKindSlice"
    "ElemType (Underlying (FieldType field)) = Some elem"
    "Kind (Underlying elem) = TypeKindPrimitive" "TypeName (Underlying elem) = ''string''"
    by (auto simp: stringSliceField_def)
  have "buildElemSchema elem rt ctx = Inr (set_Type ''string'' emptySchema, rt)"
    using e(4,5) by (simp add: buildElemSchema_plain typedSchema_def primitiveToSchema_def)
  with e(1,2,3) show ?thesis by (simp add: BuildFieldSchema_collection)
qed

lemma parse_required_dive_oneof:
  "parseValidateTag ''required,dive,oneof=a b'' =
     [\<lparr>Name = ''required'', Param = []\<rparr>, \<lparr>Name = ''dive'', Param = []\<rparr>, \<lparr>Name = ''oneof'', Param = ''a b''\<rparr>]"
  by (simp add: parseValidateTag_def splitValidateTag_def TrimSpace_def isSpace_def Let_def)

lemma Fields_a_b: "Fields ''a b'' = [''a'', ''b'']"
  by (simp add: Fields_def isSpace_def)

text \<open>The schema of such a field with the rule string \<^verbatim>\<open>required,dive,oneof=a b\<close>, after the
  mapper: the array is required and has no enumeration, the items have it.\<close>

lemma stringSlice_required_dive_oneof:
  assumes "Tags field ''validate'' = Some ''required,dive,oneof=a b''"
  shows "ApplyValidation m
           (withFieldDoc field (set_Items (Some (set_Type ''string'' emptySchema)) (set_Type ''array'' emptySchema)))
           field
         = (withFieldDoc field
              (set_Items (Some (set_Enum [''a'', ''b''] (set_Type ''string'' emptySchema)))
                 (set_Type ''array'' emptySchema)), True)"
proof -
  let ?s = "withFieldDoc field (set_Items (Some (set_Type ''string'' emptySchema)) (set_Type ''array'' emptySchema))"
  have dive: "findDive (parseValidateTag ''required,dive,oneof=a b'') = Some 1"
    by (simp add: parse_required_dive_oneof)
  have s: "Type ?s = ''array''" "Items ?s = Some (set_Type ''string'' emptySchema)" by simp_all
  have items: "applyRulesToSchema m (set_Type ''string'' emptySchema) [\<lparr>Name = ''oneof'', Param = ''a b''\<rparr>]
        = (set_Enum [''a'', ''b''] (set_Type ''string'' emptySchema), False)"
    by (simp add: applyRulesToSchema_def applyRule_def Fields_a_b)
  have arr: "applyRulesToSchema m ?s [\<lparr>Name = ''required'', Param = []\<rparr>] = (?s, True)"
    by (simp add: applyRulesToSchema_def applyRule_def)
  have "set_Items (Some (set_Enum [''a'', ''b''] (set_Type ''string'' emptySchema))) ?s
        = withFieldDoc field
              (set_Items (Some (set_Enum [''a'', ''b''] (set_Type ''string'' emptySchema)))
                 (set_Type ''array'' emptySchema))"
    by (simp add: withFieldDoc_def set_Items_def set_Description_def set_Type_def emptySchema_def)
  with ApplyValidation_dive [OF assms dive s, of m] items arr show ?thesis
    by (simp add: parse_required_dive_oneof)
qed

text \<open>
  Claim C3, amended. When the rule list of a field has a \<^verbatim>\<open>dive\<close> and the schema is an array
  that has an items schema, the rules before the first \<^verbatim>\<open>dive\<close> are applied to the array
  schema, which alone decides the required flag, and the rules after it to the items
  schema. For a slice-of-string field with the rule string \<^verbatim>\<open>required,dive,oneof=a b\<close>, no
  type override and no omit-if-empty mark, in a struct with distinct property names: the
  property is in the required list of the document, it is an array without enumeration,
  and its items schema is a string schema with the enumeration \<open>a\<close>, \<open>b\<close>.
\<close>

theorem dive_splits_rules_of_array_with_items:
  "(Tags field ''validate'' = Some tag \<and> findDive (parseValidateTag tag) = Some i
      \<and> Type s = ''array'' \<and> Items s = Some items \<longrightarrow>
        ApplyValidation m s field =
          (set_Items (Some (fst (applyRulesToSchema m items (drop (Suc i) (parseValidateTag tag)))))
             (fst (applyRulesToSchema m s (take i (parseValidateTag tag)))),
           ''required'' \<in> set (map Name (take i (parseValidateTag tag)))))
   \<and> (BuildSchema b si rt = Inr (doc, rt') \<and> field \<in> set (StructFields si)
      \<and> distinct (map PropertyName (StructFields si)) \<and> stringSliceField field
      \<and> Tags field ''validate'' = Some ''required,dive,oneof=a b'' \<and> \<not> OmitEmpty field \<longrightarrow>
        PropertyName field \<in> set (Required doc)
        \<and> (\<exists>props p. Properties doc = Some props \<and> map_of props (PropertyName field) = Some p
              \<and> Type p = ''array'' \<and> Enum p = []
              \<and> Items p = Some (set_Enum [''a'', ''b''] (set_Type ''string'' emptySchema))))"
proof (intro conjI impI)
  assume "Tags field ''validate'' = Some tag \<and> findDive (parseValidateTag tag) = Some i
      \<and> Type s = ''array'' \<and> Items s = Some items"
  then show "ApplyValidation m s field =
          (set_Items (Some (fst (applyRulesToSchema m items (drop (Suc i) (parseValidateTag tag)))))
             (fst (applyRulesToSchema m s (take i (parseValidateTag tag)))),
           ''required'' \<in> set (map Name (take i (parseValidateTag tag))))"
    by (simp add: ApplyValidation_dive)
next
  assume a: "BuildSchema b si rt = Inr (doc, rt') \<and> field \<in> set (StructFields si)
      \<and> distinct (map PropertyName (StructFields si)) \<and> stringSliceField field
      \<and> Tags field ''validate'' = Some ''required,dive,oneof=a b'' \<and> \<not> OmitEmpty field"
  then have bs: "BuildSchema b si rt = Inr (doc, rt')" and mem: "field \<in> set (StructFields si)"
    and dist: "distinct (map PropertyName (StructFields si))" and ssf: "stringSliceField field"
    and tag: "Tags field ''validate'' = Some ''required,dive,oneof=a b''" and oe: "\<not> OmitEmpty field"
    by simp_all
  from ssf have awi: "arrayWithItems field" by (auto simp: stringSliceField_def arrayWithItems_def)
  have "effectiveRules field = [\<lparr>Name = ''required'', Param = []\<rparr>]"
    using tag awi by (simp add: effectiveRules_def parse_required_dive_oneof)
  with oe have "requiredField field" by (simp add: requiredField_def)
  with mem show "PropertyName field \<in> set (Required doc)"
    by (simp add: BuildSchema_Required [OF bs])
  from BuildSchema_lookup [OF bs mem dist] obtain props s0 t0 t1 ctx where
    p: "Properties doc = Some props" "BuildFieldSchema field t0 ctx = Inr (s0, t1)"
       "map_of props (PropertyName field) = Some (fst (ApplyValidation (mapper b) s0 field))"
    by blast
  from p(2) stringSliceField_schema [OF ssf, of t0 ctx]
  have s0: "s0 = withFieldDoc field (set_Items (Some (set_Type ''string'' emptySchema)) (set_Type ''array'' emptySchema))"
    by simp
  have "fst (ApplyValidation (mapper b) s0 field) =
      withFieldDoc field
              (set_Items (Some (set_Enum [''a'', ''b''] (set_Type ''string'' emptySchema)))
                 (set_Type ''array'' emptySchema))"
    unfolding s0 by (simp add: stringSlice_required_dive_oneof [OF tag])
  with p(1,3) show "\<exists>props p. Properties doc = Some props \<and> map_of props (PropertyName field) = Some p
              \<and> Type p = ''array'' \<and> Enum p = []
              \<and> Items p = Some (set_Enum [''a'', ''b''] (set_Type ''string'' emptySchema))"
    by simp
qed

text \<open>The field \<^verbatim>\<open>Roles []string `json:"roles"`\<close> with a given rule string, and a struct of
  it.\<close>

definition rolesField :: "string \<Rightarrow> FieldInfo" where
  "rolesField tag = sampleField ''Roles'' ''roles'' (sliceOf stringType) [''validate'' \<mapsto> tag]"

definition rolesStruct :: "string \<Rightarrow> StructInfo" where
  "rolesStruct tag = sampleStruct ''User'' [rolesField tag] False"

definition rolesDoc :: Schema where
  "rolesDoc =
     set_Required [''roles'']
       (set_Properties
          (Some [(''roles'', set_Items (Some (set_Enum [''a'', ''b''] (set_Type ''string'' emptySchema)))
                              (set_Type ''array'' emptySchema))])
          (set_Type ''object'' (set_Title ''User'' (set_Version JSONSchemaDraft emptySchema))))"

lemma rolesField_stringSlice: "stringSliceField (rolesField tag)"
  by (simp add: stringSliceField_def rolesField_def sample_defs schemaOverride_def)

lemma rolesField_plain [simp]:
  "Tags (rolesField tag) ''validate'' = Some tag" "\<not> OmitEmpty (rolesField tag)"
  "PropertyName (rolesField tag) = ''roles''" "FieldDoc (rolesField tag) = []"
  by (simp_all add: rolesField_def sampleField_def)

lemma withFieldDoc_rolesField [simp]: "withFieldDoc (rolesField tag) s = s"
  by (simp add: withFieldDoc_def)

lemma rolesField_schema:
  "BuildFieldSchema (rolesField tag) rt ctx =
     Inr (set_Items (Some (set_Type ''string'' emptySchema)) (set_Type ''array'' emptySchema), rt)"
  using stringSliceField_schema [OF rolesField_stringSlice, of tag rt ctx] by simp

lemma rolesField_mapped:
  "ApplyValidation m (set_Items (Some (set_Type ''string'' emptySchema)) (set_Type ''array'' emptySchema))
       (rolesField ''required,dive,oneof=a b'')
     = (set_Items (Some (set_Enum [''a'', ''b''] (set_Type ''string'' emptySchema)))
          (set_Type ''array'' emptySchema), True)"
  using stringSlice_required_dive_oneof [of "rolesField ''required,dive,oneof=a b''" m] by simp

lemma rolesStruct_BuildSchema:
  "BuildSchema sampleBuilder (rolesStruct ''required,dive,oneof=a b'') (Some NewRefTracker)
     = Inr (rolesDoc, Some NewRefTracker)"
  by (simp add: BuildSchema_def rolesStruct_def sampleStruct_def sampleBuilder_def NewBuilder_def
        rolesField_schema rolesField_mapped rolesDoc_def)

theorem dive_splits_rules_of_array_with_items_witness:
  "BuildSchema sampleBuilder (rolesStruct ''required,dive,oneof=a b'') (Some NewRefTracker)
     = Inr (rolesDoc, Some NewRefTracker)
   \<and> rolesField ''required,dive,oneof=a b'' \<in> set (StructFields (rolesStruct ''required,dive,oneof=a b''))
   \<and> distinct (map PropertyName (StructFields (rolesStruct ''required,dive,oneof=a b'')))
   \<and> stringSliceField (rolesField ''required,dive,oneof=a b'')
   \<and> Tags (rolesField ''required,dive,oneof=a b'') ''validate'' = Some ''required,dive,oneof=a b''
   \<and> findDive (parseValidateTag ''required,dive,oneof=a b'') = Some 1
   \<and> ''roles'' \<in> set (Required rolesDoc)
   \<and> ApplyValidation sampleMapper
        (set_Items (Some (set_Type ''string'' emptySchema)) (set_Type ''array'' emptySchema))
        (rolesField ''required,dive,oneof=a b'')
      = (set_Items (Some (set_Enum [''a'', ''b''] (set_Type ''string'' emptySchema)))
           (set_Type ''array'' emptySchema), True)"
proof -
  let ?f = "rolesField ''required,dive,oneof=a b''"
  let ?s = "set_Items (Some (set_Type ''string'' emptySchema)) (set_Type ''array'' emptySchema)"
  have h1: "Tags ?f ''validate'' = Some ''required,dive,oneof=a b''" by simp
  have h2: "findDive (parseValidateTag ''required,dive,oneof=a b'') = Some 1"
    by (simp add: parse_required_dive_oneof)
  have h3: "Type ?s = ''array''" "Items ?s = Some (set_Type ''string'' emptySchema)" by simp_all
  have h4: "?f \<in> set (StructFields (rolesStruct ''required,dive,oneof=a b''))"
    "distinct (map PropertyName (StructFields (rolesStruct ''required,dive,oneof=a b'')))"
    by (simp_all add: rolesStruct_def sampleStruct_def)
  note inst = dive_splits_rules_of_array_with_items
    [of ?f "''required,dive,oneof=a b''" "1" ?s "set_Type ''string'' emptySchema" sampleMapper
        sampleBuilder "rolesStruct ''required,dive,oneof=a b''" "Some NewRefTracker" rolesDoc
        "Some NewRefTracker"]
  from inst h1 h2 h3 h4 rolesStruct_BuildSchema rolesField_stringSlice
  have a: "ApplyValidation sampleMapper ?s ?f =
          (set_Items (Some (fst (applyRulesToSchema sampleMapper (set_Type ''string'' emptySchema)
                (drop (Suc 1) (parseValidateTag ''required,dive,oneof=a b'')))))
             (fst (applyRulesToSchema sampleMapper ?s (take 1 (parseValidateTag ''required,dive,oneof=a b'')))),
           ''required'' \<in> set (map Name (take 1 (parseValidateTag ''required,dive,oneof=a b''))))"
    and b: "PropertyName ?f \<in> set (Required rolesDoc)"
    by simp_all
  have c: "ApplyValidation sampleMapper ?s ?f
      = (set_Items (Some (set_Enum [''a'', ''b''] (set_Type ''string'' emptySchema)))
           (set_Type ''array'' emptySchema), True)"
    unfolding a
    by (simp add: parse_required_dive_oneof applyRulesToSchema_def applyRule_def Fields_a_b)
  from b c h1 h2 h4 rolesStruct_BuildSchema rolesField_stringSlice show ?thesis by simp
qed

text \<open>
  Claim C3 as it was stated fails when the array schema has no items schema, as with the
  type override \<^verbatim>\<open>schema:"type=array"\<close>: the rule list is not split, and the rule after
  \<^verbatim>\<open>dive\<close> puts its enumeration on the array schema itself.
\<close>

definition overriddenRolesField :: FieldInfo where
  "overriddenRolesField =
     sampleField ''Roles'' ''roles'' (sliceOf stringType)
       [''validate'' \<mapsto> ''required,dive,oneof=a b'', ''schema'' \<mapsto> ''type=array'']"

lemma override_type_array: "parseSchemaTypeOverride ''type=array'' = ''array''"
  by (simp add: parseSchemaTypeOverride_def TrimSpace_def isSpace_def HasPrefix_def TrimPrefix_def Let_def)

theorem dive_without_items_counterexample:
  "BuildFieldSchema overriddenRolesField None None = Inr (set_Type ''array'' emptySchema, None)
   \<and> findDive (parseValidateTag ''required,dive,oneof=a b'') = Some 1
   \<and> ApplyValidation sampleMapper (set_Type ''array'' emptySchema) overriddenRolesField
       = (set_Enum [''a'', ''b''] (set_Type ''array'' emptySchema), True)
   \<and> Enum (set_Enum [''a'', ''b''] (set_Type ''array'' emptySchema)) = [''a'', ''b'']
   \<and> Items (set_Enum [''a'', ''b''] (set_Type ''array'' emptySchema)) = None"
proof -
  have ov: "schemaOverride overriddenRolesField = ''array''"
    by (simp add: schemaOverride_def overriddenRolesField_def sampleField_def override_type_array)
  have bf: "BuildFieldSchema overriddenRolesField None None = Inr (set_Type ''array'' emptySchema, None)"
    using BuildFieldSchema_override [of overriddenRolesField None None] ov
    by (simp add: withFieldDoc_def overriddenRolesField_def sampleField_def)
  have tag: "Tags overriddenRolesField ''validate'' = Some ''required,dive,oneof=a b''"
    by (simp add: overriddenRolesField_def sampleField_def)
  have "ApplyValidation sampleMapper (set_Type ''array'' emptySchema) overriddenRolesField
        = applyRulesToSchema sampleMapper (set_Type ''array'' emptySchema)
            (parseValidateTag ''required,dive,oneof=a b'')"
    using tag by (simp add: ApplyValidation_whole)
  also have "\<dots> = (set_Enum [''a'', ''b''] (set_Type ''array'' emptySchema), True)"
    by (simp add: parse_required_dive_oneof applyRulesToSchema_def applyRule_def Fields_a_b)
  finally show ?thesis using bf by (simp add: parse_required_dive_oneof)
qed

section \<open>The required list\<close>

text \<open>
  Claim C4, amended. The required list of a built document is the list of the property
  names, in declaration order, of the fields that are not omit-if-empty and have a
  \<^verbatim>\<open>required\<close> rule among the rules that apply to the field's own schema (all rules, or the
  rules before the first \<^verbatim>\<open>dive\<close> for an array with an items schema). So the property name
  of every such field is in the list; and when the property names of the record are
  distinct, the property name of a field is in the list only if the field is such a
  field; in particular a field that is omit-if-empty is not in it.
\<close>

theorem required_list_of_document:
  assumes "BuildSchema b si rt = Inr (doc, rt')"
  shows "Required doc = map PropertyName (filter requiredField (StructFields si))
       \<and> (\<forall>f \<in> set (StructFields si). requiredField f \<longrightarrow> PropertyName f \<in> set (Required doc))
       \<and> (distinct (map PropertyName (StructFields si)) \<longrightarrow>
            (\<forall>f \<in> set (StructFields si).
               (PropertyName f \<in> set (Required doc)) = requiredField f
               \<and> (OmitEmpty f \<longrightarrow> PropertyName f \<notin> set (Required doc))))"
proof -
  have req: "Required doc = map PropertyName (filter requiredField (StructFields si))"
    by (rule BuildSchema_Required [OF assms])
  have only: "PropertyName f \<in> set (Required doc) \<Longrightarrow> requiredField f"
    if "distinct (map PropertyName (StructFields si))" and "f \<in> set (StructFields si)" for f
  proof -
    assume "PropertyName f \<in> set (Required doc)"
    with req obtain g where g: "g \<in> set (StructFields si)" "requiredField g" "PropertyName g = PropertyName f"
      by auto
    from that(1) g(1) that(2) g(3) have "g = f"
      by (meson distinct_map inj_on_def)
    with g(2) show ?thesis by simp
  qed
  show ?thesis
  proof (intro conjI ballI impI)
    show "Required doc = map PropertyName (filter requiredField (StructFields si))" by (rule req)
  next
    fix f assume "f \<in> set (StructFields si)" "requiredField f"
    then show "PropertyName f \<in> set (Required doc)" by (simp add: req)
  next
    fix f assume d: "distinct (map PropertyName (StructFields si))" and f: "f \<in> set (StructFields si)"
    show "(PropertyName f \<in> set (Required doc)) = requiredField f"
      using only [OF d f] f by (auto simp: req)
  next
    fix f assume d: "distinct (map PropertyName (StructFields si))" and f: "f \<in> set (StructFields si)"
      and "OmitEmpty f"
    then have "\<not> requiredField f" by (simp add: requiredField_def)
    with only [OF d f] show "PropertyName f \<notin> set (Required doc)" by blast
  qed
qed

lemma parse_dive_required:
  "parseValidateTag ''dive,required'' = [\<lparr>Name = ''dive'', Param = []\<rparr>, \<lparr>Name = ''required'', Param = []\<rparr>]"
  by (simp add: parseValidateTag_def splitValidateTag_def TrimSpace_def isSpace_def Let_def)

lemma rolesField_dive_required:
  "ApplyValidation m (set_Items (Some (set_Type ''string'' emptySchema)) (set_Type ''array'' emptySchema))
       (rolesField ''dive,required'')
     = (set_Items (Some (set_Type ''string'' emptySchema)) (set_Type ''array'' emptySchema), False)"
proof -
  let ?s = "set_Items (Some (set_Type ''string'' emptySchema)) (set_Type ''array'' emptySchema)"
  have "findDive (parseValidateTag ''dive,required'') = Some 0" by (simp add: parse_dive_required)
  from ApplyValidation_dive [of "rolesField ''dive,required''" "''dive,required''" 0 ?s
      "set_Type ''string'' emptySchema" m, OF _ this]
  show ?thesis
    by (simp add: parse_dive_required applyRulesToSchema_def applyRule_def)
qed

definition rolesDocPlain :: Schema where
  "rolesDocPlain =
     set_Properties
       (Some [(''roles'', set_Items (Some (set_Type ''string'' emptySchema)) (set_Type ''array'' emptySchema))])
       (set_Type ''object'' (set_Title ''User'' (set_Version JSONSchemaDraft emptySchema)))"

lemma rolesStruct_dive_required:
  "BuildSchema sampleBuilder (rolesStruct ''dive,required'') (Some NewRefTracker)
     = Inr (rolesDocPlain, Some NewRefTracker)"
  by (simp add: BuildSchema_def rolesStruct_def sampleStruct_def sampleBuilder_def NewBuilder_def
        rolesField_schema rolesField_dive_required rolesDocPlain_def)

text \<open>
  Claim C4 as it was stated fails for a \<^verbatim>\<open>required\<close> rule after \<^verbatim>\<open>dive\<close>: the rule string
  \<^verbatim>\<open>dive,required\<close> of a slice field contains \<^verbatim>\<open>required\<close>, the field is not omit-if-empty,
  and the required list of the document is empty.
\<close>

theorem required_after_dive_counterexample:
  "BuildSchema sampleBuilder (rolesStruct ''dive,required'') (Some NewRefTracker)
     = Inr (rolesDocPlain, Some NewRefTracker)
   \<and> StructFields (rolesStruct ''dive,required'') = [rolesField ''dive,required'']
   \<and> Tags (rolesField ''dive,required'') ''validate'' = Some ''dive,required''
   \<and> ''required'' \<in> set (map Name (parseValidateTag ''dive,required''))
   \<and> \<not> OmitEmpty (rolesField ''dive,required'')
   \<and> PropertyName (rolesField ''dive,required'') \<notin> set (Required rolesDocPlain)"
proof -
  have "StructFields (rolesStruct ''dive,required'') = [rolesField ''dive,required'']"
    by (simp add: rolesStruct_def sampleStruct_def)
  moreover have "Required rolesDocPlain = []" by (simp add: rolesDocPlain_def)
  ultimately show ?thesis
    using rolesStruct_dive_required by (simp add: parse_dive_required)
qed

theorem required_list_of_document_witness:
  "BuildSchema sampleBuilder (rolesStruct ''required,dive,oneof=a b'') (Some NewRefTracker)
     = Inr (rolesDoc, Some NewRefTracker)
   \<and> distinct (map PropertyName (StructFields (rolesStruct ''required,dive,oneof=a b'')))
   \<and> requiredField (rolesField ''required,dive,oneof=a b'')
   \<and> Required rolesDoc = [''roles'']
   \<and> PropertyName (rolesField ''required,dive,oneof=a b'') \<in> set (Required rolesDoc)"
proof -
  have d: "distinct (map PropertyName (StructFields (rolesStruct ''required,dive,oneof=a b'')))"
    and m: "rolesField ''required,dive,oneof=a b'' \<in> set (StructFields (rolesStruct ''required,dive,oneof=a b''))"
    by (simp_all add: rolesStruct_def sampleStruct_def)
  have awi: "arrayWithItems (rolesField ''required,dive,oneof=a b'')"
    using rolesField_stringSlice [of "''required,dive,oneof=a b''"]
    by (auto simp: stringSliceField_def arrayWithItems_def)
  have rf: "requiredField (rolesField ''required,dive,oneof=a b'')"
    using awi by (simp add: requiredField_def effectiveRules_def parse_required_dive_oneof)
  from required_list_of_document [OF rolesStruct_BuildSchema] d m rf
  have "PropertyName (rolesField ''required,dive,oneof=a b'') \<in> set (Required rolesDoc)"
    by blast
  moreover have "Required rolesDoc = [''roles'']" by (simp add: rolesDoc_def)
  ultimately show ?thesis using d rf rolesStruct_BuildSchema by simp
qed

section \<open>Deriving a document again\<close>

text \<open>
  Claim C7. The document derived from a record descriptor (with its inline preference),
  a builder (struct map and configuration) and a tracker does not depend on what the
  tracker holds: any two derivations give the same document, with the same properties in
  the same order, the same required list and the same links, or fail with the same
  error. A derivation that follows another with the tracker the first one left gives the
  same document and leaves the tracker as it is.
\<close>

theorem derivation_is_repeatable:
  "map_sum id fst (BuildSchema b si (Some t1)) = map_sum id fst (BuildSchema b si (Some t2))
   \<and> (BuildSchema b si (Some t1) = Inr (doc, Some t1') \<longrightarrow>
        BuildSchema b si (Some t1') = Inr (doc, Some t1'))"
proof -
  from BuildSchema_trackers [of b si]
  consider err where "\<forall>t. BuildSchema b si (Some t) = Inl err"
    | d ns where "\<forall>t. BuildSchema b si (Some t) = Inr (d, Some (addRefs ns t))"
    by blast
  then show ?thesis
  proof cases
    case 1
    then show ?thesis by simp
  next
    case 2
    then have "BuildSchema b si (Some (addRefs ns t1)) = Inr (d, Some (addRefs ns t1))"
      by (simp add: addRefs_twice)
    with 2 show ?thesis by auto
  qed
qed

text \<open>A record with the field \<^verbatim>\<open>Address Address `json:"address" validate:"email"`\<close>, and its
  document.\<close>

definition addressStruct :: StructInfo where
  "addressStruct = sampleStruct ''User'' [addressField] False"

definition addressDoc :: Schema where
  "addressDoc =
     set_Properties (Some [(''address'', set_Format ''email'' (set_Ref ''address.schema.json'' emptySchema))])
       (set_Type ''object'' (set_Title ''User'' (set_Version JSONSchemaDraft emptySchema)))"

lemma addressField_mapped:
  "ApplyValidation sampleMapper (set_Ref ''address.schema.json'' emptySchema) addressField
     = (set_Format ''email'' (set_Ref ''address.schema.json'' emptySchema), False)"
proof -
  have tag: "Tags addressField ''validate'' = Some ''email''"
    by (simp add: addressField_def sampleField_def)
  have "ApplyValidation sampleMapper (set_Ref ''address.schema.json'' emptySchema) addressField
        = applyRulesToSchema sampleMapper (set_Ref ''address.schema.json'' emptySchema) [\<lparr>Name = ''email'', Param = []\<rparr>]"
    using tag by (simp add: ApplyValidation_whole parse_email)
  then show ?thesis by (simp add: applyRulesToSchema_def applyRule_def)
qed

lemma addressStruct_BuildSchema:
  "BuildSchema sampleBuilder addressStruct (Some NewRefTracker)
     = Inr (addressDoc, Some (AddRef ''Address'' NewRefTracker))"
proof -
  have "PropertyName addressField = ''address''" "\<not> OmitEmpty addressField"
    by (simp_all add: addressField_def sampleField_def)
  then show ?thesis
    by (simp add: BuildSchema_def addressStruct_def sampleStruct_def sampleBuilder_def NewBuilder_def
        addressField_schema addressField_mapped addressDoc_def)
qed

theorem derivation_is_repeatable_witness:
  "BuildSchema sampleBuilder addressStruct (Some NewRefTracker)
     = Inr (addressDoc, Some (AddRef ''Address'' NewRefTracker))
   \<and> BuildSchema sampleBuilder addressStruct (Some (AddRef ''Address'' NewRefTracker))
     = Inr (addressDoc, Some (AddRef ''Address'' NewRefTracker))
   \<and> AddRef ''Address'' NewRefTracker \<noteq> NewRefTracker"
  using derivation_is_repeatable
          [of sampleBuilder addressStruct NewRefTracker NewRefTracker addressDoc "AddRef ''Address'' NewRefTracker"]
        addressStruct_BuildSchema
  by (simp add: AddRef_def NewRefTracker_def)

section \<open>Topological order\<close>






























section \<open>Cycle detection\<close>










section \<open>Derivation in reference mode\<close>

text \<open>The struct names of the package that occur in a type: the type itself, or the
  element type of a slice, an array or a map, at any depth.\<close>

function elemRefs :: "TypeInfo \<Rightarrow> string list" where
  "elemRefs t =
     (if localStructType t then [TypeName (Underlying t)]
      else if Kind (Underlying t) = TypeKindSlice \<or> Kind (Underlying t) = TypeKindArray
              \<or> Kind (Underlying t) = TypeKindMap
      then (case ElemType (Underlying t) of None \<Rightarrow> [] | Some elem \<Rightarrow> elemRefs elem)
      else [])"
  by pat_completeness auto
termination
  by (relation "measure size") (auto simp: size_ElemType_Underlying)

declare elemRefs.simps [simp del]

text \<open>The names a field refers to, and the names a struct refers to, field after field.\<close>

definition fieldRefs :: "FieldInfo \<Rightarrow> string list" where
  "fieldRefs field = (if schemaOverride field = [] then elemRefs (FieldType field) else [])"


lemma elemRefs_struct: "localStructType t \<Longrightarrow> elemRefs t = [TypeName (Underlying t)]"
  by (simp add: elemRefs.simps)

lemma elemRefs_collection:
  assumes "Kind (Underlying t) = TypeKindSlice \<or> Kind (Underlying t) = TypeKindArray
             \<or> Kind (Underlying t) = TypeKindMap"
  shows "elemRefs t = (case ElemType (Underlying t) of None \<Rightarrow> [] | Some elem \<Rightarrow> elemRefs elem)"
  using assms by (subst elemRefs.simps) (auto simp: localStructType_def)

lemma elemRefs_other:
  assumes "\<not> localStructType t" and "Kind (Underlying t) \<noteq> TypeKindSlice"
    and "Kind (Underlying t) \<noteq> TypeKindArray" and "Kind (Underlying t) \<noteq> TypeKindMap"
  shows "elemRefs t = []"
  using assms by (simp add: elemRefs.simps)

text \<open>When the context does not ask for inlining, the schema of an element type is the one
  built without any context, it is never an error, and the tracker receives the names of
  the type.\<close>

lemma buildElemSchema_reference_mode:
  assumes "\<not> shouldInlineStruct ctx"
  shows "buildElemSchema t rt ctx = buildElemSchema t rt None
         \<and> (\<exists>x. \<forall>tr. buildElemSchema t (Some tr) ctx = Inr (x, Some (addRefs (elemRefs t) tr)))"
proof (induction t arbitrary: rt rule: measure_induct_rule [where f = size])
  case (less t)
  have none: "\<not> shouldInlineStruct None" by (simp add: shouldInlineStruct_def)
  show ?case
  proof (cases "Kind (Underlying t)" rule: TypeKind_cases)
    case 7
    show ?thesis
    proof (cases "ElemType (Underlying t)")
      case None
      with 7 show ?thesis by (auto simp: buildElemSchema_collection elemRefs_collection)
    next
      case (Some elem)
      then have "size elem < size t" by (rule size_ElemType_Underlying)
      from less.IH [OF this] obtain x where
        "\<And>rt. buildElemSchema elem rt ctx = buildElemSchema elem rt None"
        "\<forall>tr. buildElemSchema elem (Some tr) ctx = Inr (x, Some (addRefs (elemRefs elem) tr))"
        by blast
      with 7 Some show ?thesis by (auto simp: buildElemSchema_collection elemRefs_collection)
    qed
  next
    case 8
    show ?thesis
    proof (cases "ElemType (Underlying t)")
      case None
      with 8 show ?thesis by (simp add: buildElemSchema_map elemRefs_collection)
    next
      case (Some elem)
      then have "size elem < size t" by (rule size_ElemType_Underlying)
      from less.IH [OF this] obtain x where
        "\<And>rt. buildElemSchema elem rt ctx = buildElemSchema elem rt None"
        "\<forall>tr. buildElemSchema elem (Some tr) ctx = Inr (x, Some (addRefs (elemRefs elem) tr))"
        by blast
      with 8 Some show ?thesis by (simp add: buildElemSchema_map elemRefs_collection)
    qed
  next
    case 9
    show ?thesis
    proof (cases "localStructType t")
      case False
      with 9 show ?thesis by (simp add: buildElemSchema_foreign elemRefs_other)
    next
      case True
      with assms none show ?thesis by (simp add: buildElemSchema_ref elemRefs_struct)
    qed
  qed (auto simp: buildElemSchema_plain elemRefs_other localStructType_def)
qed

lemma BuildFieldSchema_reference_mode:
  assumes "\<not> shouldInlineStruct ctx"
  shows "BuildFieldSchema field rt ctx = BuildFieldSchema field rt None
         \<and> (\<exists>x. \<forall>tr. BuildFieldSchema field (Some tr) ctx = Inr (x, Some (addRefs (fieldRefs field) tr)))"
proof (cases "schemaOverride field = []")
  case False
  then show ?thesis by (simp add: BuildFieldSchema_override fieldRefs_def)
next
  case ov: True
  have none: "\<not> shouldInlineStruct None" by (simp add: shouldInlineStruct_def)
  show ?thesis
  proof (cases "Kind (Underlying (FieldType field))" rule: TypeKind_cases)
    case 7
    show ?thesis
    proof (cases "ElemType (Underlying (FieldType field))")
      case None
      with 7 ov show ?thesis
        by (auto simp: BuildFieldSchema_collection fieldRefs_def elemRefs_collection)
    next
      case (Some elem)
      from buildElemSchema_reference_mode [OF assms, of elem] obtain x where
        "\<And>rt. buildElemSchema elem rt ctx = buildElemSchema elem rt None"
        "\<forall>tr. buildElemSchema elem (Some tr) ctx = Inr (x, Some (addRefs (elemRefs elem) tr))"
        by blast
      with 7 ov Some show ?thesis
        by (auto simp: BuildFieldSchema_collection fieldRefs_def elemRefs_collection)
    qed
  next
    case 8
    show ?thesis
    proof (cases "ElemType (Underlying (FieldType field))")
      case None
      with 8 ov show ?thesis
        by (simp add: BuildFieldSchema_map fieldRefs_def elemRefs_collection)
    next
      case (Some elem)
      from buildElemSchema_reference_mode [OF assms, of elem] obtain x where
        "\<And>rt. buildElemSchema elem rt ctx = buildElemSchema elem rt None"
        "\<forall>tr. buildElemSchema elem (Some tr) ctx = Inr (x, Some (addRefs (elemRefs elem) tr))"
        by blast
      with 8 ov Some show ?thesis
        by (simp add: BuildFieldSchema_map fieldRefs_def elemRefs_collection)
    qed
  next
    case 9
    show ?thesis
    proof (cases "localStructField field")
      case False
      with 9 ov have a: "\<not> (IsExported (Underlying (FieldType field)) \<and> PackageName (Underlying (FieldType field)) = [])"
        by (auto simp: localStructField_def)
      then have "\<not> localStructType (FieldType field)" by (auto simp: localStructType_def)
      with 9 ov a show ?thesis
        by (simp add: BuildFieldSchema_foreign fieldRefs_def elemRefs_other)
    next
      case True
      then have "localStructType (FieldType field)"
        by (simp add: localStructField_def localStructType_def)
      with True assms none ov show ?thesis
        by (simp add: BuildFieldSchema_ref fieldRefs_def elemRefs_struct)
    qed
  qed (auto simp: BuildFieldSchema_plain ov fieldRefs_def elemRefs_other localStructType_def)
qed

lemma buildSchemaFields_reference_mode:
  assumes "\<not> shouldInlineStruct ctx"
  shows "buildSchemaFields b fs rt ctx props req = buildSchemaFields b fs rt None props req
         \<and> (\<exists>p r. \<forall>tr. buildSchemaFields b fs (Some tr) ctx props req
                = Inr (p, r, Some (addRefs (concat (map fieldRefs fs)) tr)))"
proof (induction fs arbitrary: rt props req)
  case Nil
  show ?case by simp
next
  case (Cons f fs)
  from BuildFieldSchema_reference_mode [OF assms, of f] obtain x where
    x: "\<And>rt. BuildFieldSchema f rt ctx = BuildFieldSchema f rt None"
    "\<forall>tr. BuildFieldSchema f (Some tr) ctx = Inr (x, Some (addRefs (fieldRefs f) tr))"
    by blast
  obtain s' isReq where av: "ApplyValidation (mapper b) x f = (s', isReq)"
    by (cases "ApplyValidation (mapper b) x f")
  let ?props = "PropertiesSet (PropertyName f) s' props"
  let ?req = "if isReq \<and> \<not> OmitEmpty f then req @ [PropertyName f] else req"
  from Cons [of _ ?props ?req] obtain p r where
    ih: "\<And>rt. buildSchemaFields b fs rt ctx ?props ?req = buildSchemaFields b fs rt None ?props ?req"
    "\<forall>tr. buildSchemaFields b fs (Some tr) ctx ?props ?req
        = Inr (p, r, Some (addRefs (concat (map fieldRefs fs)) tr))"
    by blast
  have first: "buildSchemaFields b (f # fs) rt ctx props req = buildSchemaFields b (f # fs) rt None props req"
    using x(1) Cons by (simp split: sum.splits prod.splits)
  have "\<forall>tr. buildSchemaFields b (f # fs) (Some tr) ctx props req
        = Inr (p, r, Some (addRefs (concat (map fieldRefs (f # fs))) tr))"
    using x(2) av ih(2) by simp
  with first show ?case by blast
qed

text \<open>\<^verbatim>\<open>BuildSchemaWithRefs\<close> switches the inline preference of its copy of the struct off, so
  the derivation is in reference mode whatever the preference of the struct and whatever
  struct map the builder holds: it never fails, and it returns the names the struct
  refers to.\<close>

lemma buildSchemaFields_structMap:
  "buildSchemaFields (b\<lparr>structMap := sm\<rparr>) fs rt ctx props req = buildSchemaFields b fs rt ctx props req"
  by (induction fs arbitrary: rt props req) (simp_all split: sum.splits prod.splits)



lemma BuildSchemaWithRefs_structMap:
  "BuildSchemaWithRefs order (b\<lparr>structMap := sm\<rparr>) s = BuildSchemaWithRefs order b s"
proof -
  let ?s = "s\<lparr>Inline := False\<rparr>"
  let ?ctx = "\<lambda>c. case structMap c of None \<Rightarrow> None
     | Some m \<Rightarrow> Some \<lparr>Enabled = False, ParentInline = Inline ?s, StructMap = m,
          InProgress = {StructName ?s}, CtxBuilder = c\<rparr>"
  have a: "\<not> shouldInlineStruct (?ctx c)" for c
    by (simp add: shouldInlineStruct_def split: option.splits)
  have e: "buildSchemaFields c (StructFields ?s) rt (?ctx c) [] []
      = buildSchemaFields c (StructFields ?s) rt None [] []" for c rt
    using buildSchemaFields_reference_mode [OF a [of c], of c "StructFields ?s" rt "[]" "[]"] by blast
  have "BuildSchema (b\<lparr>structMap := sm\<rparr>) ?s rt = BuildSchema b ?s rt" for rt
    unfolding BuildSchema_def Let_def e
    by (simp add: buildSchemaFields_structMap split: sum.splits)
  then show ?thesis by (simp add: BuildSchemaWithRefs_def)
qed

section \<open>The graph the run collects\<close>













section \<open>The auto-resolution\<close>















section \<open>The run\<close>




section \<open>A run on two records that refer to each other\<close>




text \<open>\<^verbatim>\<open>A\<close> has the inline preference and a field of type \<^verbatim>\<open>B\<close>; \<^verbatim>\<open>B\<close> has a field of type
  \<^verbatim>\<open>A\<close>.\<close>

definition recordA :: StructInfo where
  "recordA = sampleStruct ''A'' [sampleField ''B'' ''b'' (structType ''B'') Map.empty] True"

definition recordB :: StructInfo where
  "recordB = sampleStruct ''B'' [sampleField ''A'' ''a'' (structType ''A'') Map.empty] False"










lemma recordAB_names [simp]: "StructName recordA = ''A''" "StructName recordB = ''B''"
  by (simp_all add: recordA_def recordB_def sampleStruct_def)





section \<open>A referenced name that is not found\<close>












section \<open>A run on a record that refers to a struct that is nowhere\<close>
















end
